theory Spec2Isabelle
  imports Complex_Main "HOL-Library.Char_ord" "HOL-Library.List_Lexorder" "HOL-Library.AList"
begin

section \<open>Python values and exceptions\<close>

text \<open>
  The module \<^verbatim>\<open>dice_ml/data_interfaces/private_data_interface.py\<close> defines one class,
  \<^verbatim>\<open>PrivateData\<close>, built from a dictionary \<^verbatim>\<open>params\<close>. The values that dictionary can hold
  are modelled by one datatype: \<^verbatim>\<open>None\<close>, integers (unbounded), floats, strings, lists and
  dictionaries with string keys. A dictionary is an association list in insertion order;
  looking a key up reads its first entry. A finite float is modelled by the rational it
  denotes, so float arithmetic is exact in the model and rounding is outside it.

  The constructor tests \<^verbatim>\<open>type(x) is dict\<close> and \<^verbatim>\<open>type(x) is str\<close>, which an instance of
  a subclass fails. Two such classes have values of their own: \<^verbatim>\<open>collections.OrderedDict\<close>,
  a mapping that is not of type \<^verbatim>\<open>dict\<close>, and \<^verbatim>\<open>numpy.str_\<close>, a string that is not of
  type \<^verbatim>\<open>str\<close>. Everywhere else they behave as a dictionary and as a string.

  Every exception the code can raise is a value of \<open>error\<close>; an operation that can raise
  returns \<open>error + 'a\<close> with \<open>Inl\<close> for the exception. The specification's
  \<^emph>\<open>ConfigurationError\<close> is the \<^verbatim>\<open>ValueError\<close> the constructor raises.
\<close>

datatype error = ValueError | KeyError | TypeError | IndexError | AttributeError | NameError

datatype pyobj =
    PyNone
  | PyInt int
  | PyFloat rat
  | PyStr string
  | PyList "pyobj list"
  | PyDict "(string \<times> pyobj) list"
  | PyOrderedDict "(string \<times> pyobj) list"
  | PyNpStr string

text \<open>
  \<^verbatim>\<open>type(x) is dict\<close>, \<^verbatim>\<open>type(x) is str\<close> and \<^verbatim>\<open>type(x) is int\<close>: the exact type. And
  \<^verbatim>\<open>isinstance\<close> of a mapping and of a string, which the subclasses pass too.
\<close>

fun is_dict :: "pyobj \<Rightarrow> bool" where
  "is_dict (PyDict d) = True"
| "is_dict v = False"

fun is_str :: "pyobj \<Rightarrow> bool" where
  "is_str (PyStr s) = True"
| "is_str v = False"

fun is_int :: "pyobj \<Rightarrow> bool" where
  "is_int (PyInt i) = True"
| "is_int v = False"

fun is_mapping :: "pyobj \<Rightarrow> bool" where
  "is_mapping (PyDict d) = True"
| "is_mapping (PyOrderedDict d) = True"
| "is_mapping v = False"

fun is_string :: "pyobj \<Rightarrow> bool" where
  "is_string (PyStr s) = True"
| "is_string (PyNpStr s) = True"
| "is_string v = False"

fun is_num :: "pyobj \<Rightarrow> bool" where
  "is_num (PyInt i) = True"
| "is_num (PyFloat q) = True"
| "is_num v = False"

fun str_of :: "pyobj \<Rightarrow> string" where
  "str_of (PyStr s) = s"
| "str_of (PyNpStr s) = s"
| "str_of v = []"

text \<open>\<^verbatim>\<open>x == 'text'\<close> for a string literal: true of a string with these characters.\<close>

definition eq_str :: "pyobj \<Rightarrow> string \<Rightarrow> bool" where
  "eq_str x t = (is_string x \<and> str_of x = t)"

fun num_of :: "pyobj \<Rightarrow> rat" where
  "num_of (PyInt i) = of_int i"
| "num_of (PyFloat q) = q"
| "num_of v = 0"

text \<open>\<^verbatim>\<open>d[k]\<close> on a dictionary and \<^verbatim>\<open>d[k] = v\<close>.\<close>

definition dict_getitem :: "(string \<times> pyobj) list \<Rightarrow> string \<Rightarrow> error + pyobj" where
  "dict_getitem d k = (case map_of d k of None \<Rightarrow> Inl KeyError | Some v \<Rightarrow> Inr v)"

definition dict_setitem :: "(string \<times> pyobj) list \<Rightarrow> string \<Rightarrow> pyobj \<Rightarrow> (string \<times> pyobj) list" where
  "dict_setitem d k v = AList.update k v d"

text \<open>
  \<^verbatim>\<open>x[i]\<close> for a non-negative integer \<open>i\<close>: an element of a list, a one-character string
  of a string, \<^verbatim>\<open>IndexError\<close> out of range. The keys of a modelled dictionary are strings,
  so an integer key is missing; the other values are not subscriptable.
\<close>

fun getitem :: "pyobj \<Rightarrow> nat \<Rightarrow> error + pyobj" where
  "getitem (PyList xs) i = (if i < length xs then Inr (xs ! i) else Inl IndexError)"
| "getitem (PyStr s) i = (if i < length s then Inr (PyStr [s ! i]) else Inl IndexError)"
| "getitem (PyNpStr s) i = (if i < length s then Inr (PyStr [s ! i]) else Inl IndexError)"
| "getitem (PyDict d) i = Inl KeyError"
| "getitem (PyOrderedDict d) i = Inl KeyError"
| "getitem v i = Inl TypeError"

text \<open>\<^verbatim>\<open>x[k] = v\<close> for a string key \<open>k\<close>: only a dictionary accepts it.\<close>

fun setitem :: "pyobj \<Rightarrow> string \<Rightarrow> pyobj \<Rightarrow> error + pyobj" where
  "setitem (PyDict d) k v = Inr (PyDict (dict_setitem d k v))"
| "setitem (PyOrderedDict d) k v = Inr (PyOrderedDict (dict_setitem d k v))"
| "setitem x k v = Inl TypeError"

text \<open>\<^verbatim>\<open>x[k]\<close> for a string key \<open>k\<close>.\<close>

fun getitem_str :: "pyobj \<Rightarrow> string \<Rightarrow> error + pyobj" where
  "getitem_str (PyDict d) k = dict_getitem d k"
| "getitem_str (PyOrderedDict d) k = dict_getitem d k"
| "getitem_str x k = Inl TypeError"

fun py_len :: "pyobj \<Rightarrow> error + nat" where
  "py_len (PyList xs) = Inr (length xs)"
| "py_len (PyStr s) = Inr (length s)"
| "py_len (PyDict d) = Inr (length d)"
| "py_len (PyOrderedDict d) = Inr (length d)"
| "py_len (PyNpStr s) = Inr (length s)"
| "py_len v = Inl TypeError"

text \<open>
  \<^verbatim>\<open>sorted(x)\<close>. Strings are ordered by code point, character by character, a proper
  prefix first: the lexicographic order of \<open>char list\<close>. A string is sorted as the list of
  its characters, a dictionary as the list of its keys. A list of numbers is sorted by
  value. A list of at most one element needs no comparison. For any other list (mixed
  types, \<^verbatim>\<open>None\<close>, nested lists) the model raises \<^verbatim>\<open>TypeError\<close> at the comparison; where
  Python can still compare such elements (lists with lists), the constructor raises the
  same \<^verbatim>\<open>TypeError\<close> one line later, when it adds the element to a string.
\<close>

fun py_sorted :: "pyobj \<Rightarrow> error + pyobj list" where
  "py_sorted (PyList xs) =
     (if list_all is_string xs then Inr (map PyStr (sort (map str_of xs)))
      else if length xs \<le> 1 then Inr xs
      else if list_all is_num xs then Inr (sort_key num_of xs)
      else Inl TypeError)"
| "py_sorted (PyStr s) = Inr (map (\<lambda>c. PyStr [c]) (sort s))"
| "py_sorted (PyNpStr s) = Inr (map (\<lambda>c. PyStr [c]) (sort s))"
| "py_sorted (PyDict d) = Inr (map PyStr (sort (map fst d)))"
| "py_sorted (PyOrderedDict d) = Inr (map PyStr (sort (map fst d)))"
| "py_sorted v = Inl TypeError"

text \<open>\<^verbatim>\<open>s + x\<close> for a string \<open>s\<close>: only a string can be added to a string.\<close>

fun str_add :: "string \<Rightarrow> pyobj \<Rightarrow> error + string" where
  "str_add s (PyStr t) = Inr (s @ t)"
| "str_add s (PyNpStr t) = Inr (s @ t)"
| "str_add s v = Inl TypeError"

text \<open>\<^verbatim>\<open>xs.index(x)\<close>: the first position of \<open>x\<close>, \<^verbatim>\<open>ValueError\<close> when there is none.\<close>

fun list_index :: "'a list \<Rightarrow> 'a \<Rightarrow> error + nat" where
  "list_index [] x = Inl ValueError"
| "list_index (y # ys) x =
     (if y = x then Inr 0
      else (case list_index ys x of Inl e \<Rightarrow> Inl e | Inr i \<Rightarrow> Inr (Suc i)))"

text \<open>A list comprehension \<^verbatim>\<open>[f(x) for x in xs]\<close> whose body can raise.\<close>

fun map_err :: "('a \<Rightarrow> error + 'b) \<Rightarrow> 'a list \<Rightarrow> error + 'b list" where
  "map_err f [] = Inr []"
| "map_err f (x # xs) =
     (case f x of Inl e \<Rightarrow> Inl e
      | Inr y \<Rightarrow> (case map_err f xs of Inl e \<Rightarrow> Inl e | Inr ys \<Rightarrow> Inr (y # ys)))"

section \<open>The schema and its constructor\<close>

text \<open>
  The attributes of a \<^verbatim>\<open>PrivateData\<close> object. \<open>encoded_feature_names\<close> is assigned only
  under a condition (line 50), and the two index caches only by \<^verbatim>\<open>get_data_params\<close>:
  \<open>None\<close> is the attribute that was never assigned, and reading it raises
  \<^verbatim>\<open>AttributeError\<close>.
\<close>

record schema =
  outcome_name :: string
  type_and_precision :: pyobj
  mad :: pyobj
  continuous_feature_names :: "string list"
  permitted_range :: "(string \<times> pyobj) list"
  categorical_feature_names :: "string list"
  categorical_levels :: "(string \<times> pyobj) list"
  feature_names :: "string list"
  continuous_feature_indexes :: "nat list"
  categorical_feature_indexes :: "nat list"
  encoded_feature_names :: "string list option"
  encoded_continuous_feature_indexes :: "nat list option"
  encoded_categorical_feature_indexes :: "nat list list option"

text \<open>
  Lines 36 to 42: the loop over the keys of \<^verbatim>\<open>features_dict\<close>. A feature whose declared
  value starts with an \<^verbatim>\<open>int\<close> is continuous, any other is categorical.
\<close>

fun classify :: "(string \<times> pyobj) list \<Rightarrow> string list \<Rightarrow> schema \<Rightarrow> error + schema" where
  "classify features_dict [] s = Inr s"
| "classify features_dict (feature # rest) s =
     (case dict_getitem features_dict feature of Inl e \<Rightarrow> Inl e
      | Inr v \<Rightarrow>
        (case getitem v 0 of Inl e \<Rightarrow> Inl e
         | Inr first \<Rightarrow>
           if is_int first
           then classify features_dict rest
                  (s\<lparr>continuous_feature_names := continuous_feature_names s @ [feature],
                     permitted_range := dict_setitem (permitted_range s) feature v\<rparr>)
           else classify features_dict rest
                  (s\<lparr>categorical_feature_names := categorical_feature_names s @ [feature],
                     categorical_levels := dict_setitem (categorical_levels s) feature v\<rparr>)))"

text \<open>Lines 54 and 55: one encoded name per category of a feature, appended in turn.\<close>

fun append_levels :: "string \<Rightarrow> pyobj list \<Rightarrow> string list \<Rightarrow> error + string list" where
  "append_levels feature_name [] enc = Inr enc"
| "append_levels feature_name (category # rest) enc =
     (case str_add (feature_name @ ''_'') category of Inl e \<Rightarrow> Inl e
      | Inr n \<Rightarrow> append_levels feature_name rest (enc @ [n]))"

text \<open>Lines 53 to 55: the loop over the categorical features.\<close>

fun encode_categorical ::
  "(string \<times> pyobj) list \<Rightarrow> string list \<Rightarrow> string list \<Rightarrow> error + string list" where
  "encode_categorical levels [] enc = Inr enc"
| "encode_categorical levels (feature_name # rest) enc =
     (case dict_getitem levels feature_name of Inl e \<Rightarrow> Inl e
      | Inr lv \<Rightarrow>
        (case py_sorted lv of Inl e \<Rightarrow> Inl e
         | Inr cats \<Rightarrow>
           (case append_levels feature_name cats enc of Inl e \<Rightarrow> Inl e
            | Inr enc' \<Rightarrow> encode_categorical levels rest enc')))"

text \<open>Lines 58 and 59: the default type of every continuous feature.\<close>

fun fill_int :: "string list \<Rightarrow> pyobj \<Rightarrow> error + pyobj" where
  "fill_int [] tp = Inr tp"
| "fill_int (feature_name # rest) tp =
     (case setitem tp feature_name (PyStr ''int'') of Inl e \<Rightarrow> Inl e
      | Inr tp' \<Rightarrow> fill_int rest tp')"

text \<open>
  Lines 31 to 59, once the four entries of \<^verbatim>\<open>params\<close> have been read: \<open>tp\<close> and \<open>md\<close>
  are the objects bound to \<^verbatim>\<open>self.type_and_precision\<close> and \<^verbatim>\<open>self.mad\<close>.
\<close>

definition empty_schema :: "string \<Rightarrow> pyobj \<Rightarrow> pyobj \<Rightarrow> schema" where
  "empty_schema outcome tp md =
     \<lparr>outcome_name = outcome, type_and_precision = tp, mad = md,
      continuous_feature_names = [], permitted_range = [],
      categorical_feature_names = [], categorical_levels = [],
      feature_names = [], continuous_feature_indexes = [], categorical_feature_indexes = [],
      encoded_feature_names = None, encoded_continuous_feature_indexes = None,
      encoded_categorical_feature_indexes = None\<rparr>"

definition assign_indexes :: "string list \<Rightarrow> schema \<Rightarrow> error + schema" where
  "assign_indexes keys s =
     (case map_err (list_index keys)
             (filter (\<lambda>name. name \<in> set keys) (continuous_feature_names s)) of
        Inl e \<Rightarrow> Inl e
      | Inr ci \<Rightarrow>
        (case map_err (list_index keys)
                (filter (\<lambda>name. name \<in> set keys) (categorical_feature_names s)) of
           Inl e \<Rightarrow> Inl e
         | Inr gi \<Rightarrow>
           Inr (s\<lparr>continuous_feature_indexes := ci, categorical_feature_indexes := gi\<rparr>)))"

definition assign_encoded_feature_names :: "schema \<Rightarrow> error + schema" where
  "assign_encoded_feature_names s =
     (if length (categorical_feature_names s) > 0
      then (case encode_categorical (categorical_levels s) (categorical_feature_names s)
                   (continuous_feature_names s) of
              Inl e \<Rightarrow> Inl e
            | Inr enc \<Rightarrow> Inr (s\<lparr>encoded_feature_names := Some enc\<rparr>))
      else Inr s)"

definition assign_default_types :: "schema \<Rightarrow> error + schema" where
  "assign_default_types s =
     (case py_len (type_and_precision s) of Inl e \<Rightarrow> Inl e
      | Inr n \<Rightarrow>
        if n = 0
        then (case fill_int (continuous_feature_names s) (type_and_precision s) of
                Inl e \<Rightarrow> Inl e
              | Inr tp' \<Rightarrow> Inr (s\<lparr>type_and_precision := tp'\<rparr>))
        else Inr s)"

definition build_schema ::
  "(string \<times> pyobj) list \<Rightarrow> string \<Rightarrow> pyobj \<Rightarrow> pyobj \<Rightarrow> error + schema" where
  "build_schema features_dict outcome tp md =
     (case classify features_dict (map fst features_dict) (empty_schema outcome tp md) of
        Inl e \<Rightarrow> Inl e
      | Inr s1 \<Rightarrow>
        (case assign_indexes (map fst features_dict)
                (s1\<lparr>feature_names := map fst features_dict\<rparr>) of
           Inl e \<Rightarrow> Inl e
         | Inr s2 \<Rightarrow>
           (case assign_encoded_feature_names s2 of Inl e \<Rightarrow> Inl e
            | Inr s3 \<Rightarrow> assign_default_types s3)))"

text \<open>
  Lines 25 to 29: the optional entries of \<^verbatim>\<open>params\<close>, an empty dictionary and a list of
  \<^verbatim>\<open>1.0\<close>, one per declared feature, when they are missing.
\<close>

definition type_and_precision_argument :: "(string \<times> pyobj) list \<Rightarrow> pyobj" where
  "type_and_precision_argument params =
     (case map_of params ''type_and_precision'' of Some t \<Rightarrow> t | None \<Rightarrow> PyDict [])"

definition mad_argument :: "(string \<times> pyobj) list \<Rightarrow> nat \<Rightarrow> pyobj" where
  "mad_argument params n =
     (case map_of params ''mad'' of Some m \<Rightarrow> m | None \<Rightarrow> PyList (replicate n (PyFloat 1)))"

text \<open>
  The constructor, lines 19 to 59. \<^verbatim>\<open>params['features']\<close> and \<^verbatim>\<open>params['outcome_name']\<close>
  raise \<^verbatim>\<open>KeyError\<close> when the key is missing; the two type tests raise \<^verbatim>\<open>ValueError\<close>.
  \<^verbatim>\<open>type_and_precision\<close> and \<^verbatim>\<open>mad\<close> are optional.
\<close>

definition PrivateData :: "(string \<times> pyobj) list \<Rightarrow> error + schema" where
  "PrivateData params =
     (case dict_getitem params ''features'' of Inl e \<Rightarrow> Inl e
      | Inr fo \<Rightarrow>
        (case fo of
           PyDict features_dict \<Rightarrow>
             (case dict_getitem params ''outcome_name'' of Inl e \<Rightarrow> Inl e
              | Inr oo \<Rightarrow>
                (case oo of
                   PyStr outcome \<Rightarrow>
                     build_schema features_dict outcome
                       (type_and_precision_argument params)
                       (mad_argument params (length features_dict))
                 | _ \<Rightarrow> Inl ValueError))
         | _ \<Rightarrow> Inl ValueError))"

section \<open>Tables\<close>

text \<open>
  A pandas \<^verbatim>\<open>DataFrame\<close> is a list of named columns, in column order; \<^verbatim>\<open>df[name]\<close> reads
  the first column of that name and raises \<^verbatim>\<open>KeyError\<close> when there is none. A column has
  one dtype:
  \<^item> \<^verbatim>\<open>int64\<close>: its cells are integers of 64 bits, and arithmetic in this dtype wraps around
    silently. The cells are integers with the wrap-around written out (\<open>wrap64\<close>).
  \<^item> \<^verbatim>\<open>float64\<close>: a cell is a finite float, modelled by the rational it denotes (so that
    the arithmetic of finite floats is exact and their rounding and overflow are outside
    the model), or one of \<^verbatim>\<open>inf\<close>, \<^verbatim>\<open>-inf\<close>, \<^verbatim>\<open>nan\<close>. Signed zeros are not modelled: a
    division by zero takes the sign of the numerator.
  \<^item> \<^verbatim>\<open>object\<close>, holding strings.
  Integer dtypes of other widths, unsigned ones, and object columns that hold other
  values than strings are not represented.

  \<^verbatim>\<open>normalize_data\<close> and \<^verbatim>\<open>de_normalize_data\<close> copy their argument and assign to the
  copy, so frames live in a store: a list of frames, a frame being named by its position.
  \<^verbatim>\<open>df.copy()\<close> allocates the next position. A position outside the store is an object
  that is not a frame, on which \<^verbatim>\<open>.copy()\<close> raises \<^verbatim>\<open>AttributeError\<close>.
\<close>

datatype fnum = Fin rat | PosInf | NegInf | NaN

datatype column = Int64 "int list" | Float64 "fnum list" | Strings "string list"

type_synonym frame = "(string \<times> column) list"


definition frame_getitem :: "frame \<Rightarrow> string \<Rightarrow> error + column" where
  "frame_getitem fr name = (case map_of fr name of None \<Rightarrow> Inl KeyError | Some col \<Rightarrow> Inr col)"

definition frame_setitem :: "frame \<Rightarrow> string \<Rightarrow> column \<Rightarrow> frame" where
  "frame_setitem fr name col = AList.update name col fr"


text \<open>The cells of a column, whatever its dtype.\<close>

datatype cell = CInt int | CFloat fnum | CStr string

fun cells :: "column \<Rightarrow> cell list" where
  "cells (Int64 vs) = map CInt vs"
| "cells (Float64 fs) = map CFloat fs"
| "cells (Strings ss) = map CStr ss"












section \<open>Normalisation\<close>






section \<open>Bounds and index lists of the encoded space\<close>

text \<open>
  \<^verbatim>\<open>get_minx_maxx\<close>, lines 79 to 89. The two arrays have one row. The branch for
  \<^verbatim>\<open>normalized=False\<close> reads the names \<^verbatim>\<open>feature_name\<close> and \<^verbatim>\<open>idx\<close>; the method binds
  \<^verbatim>\<open>self\<close>, \<^verbatim>\<open>normalized\<close>, \<^verbatim>\<open>minx\<close> and \<^verbatim>\<open>maxx\<close>, the module binds \<^verbatim>\<open>pd\<close>, \<^verbatim>\<open>np\<close> and
  \<^verbatim>\<open>PrivateData\<close>, and neither name is a builtin, so the right-hand side of line 87, which
  Python evaluates first, raises \<^verbatim>\<open>NameError\<close>.
\<close>

definition get_minx_maxx :: "schema \<Rightarrow> bool \<Rightarrow> error + (rat list list \<times> rat list list)" where
  "get_minx_maxx s normalized =
     (case encoded_feature_names s of None \<Rightarrow> Inl AttributeError
      | Some names \<Rightarrow>
        (let minx = [replicate (length names) 0];
             maxx = [replicate (length names) 1]
         in if normalized then Inr (minx, maxx) else Inl NameError))"

text \<open>\<^verbatim>\<open>col.startswith(p)\<close>.\<close>

definition startswith :: "string \<Rightarrow> string \<Rightarrow> bool" where
  "startswith col p = (take (length p) col = p)"

text \<open>
  \<^verbatim>\<open>get_encoded_categorical_feature_indexes\<close>, lines 109 to 115: for each categorical
  feature, the position (\<^verbatim>\<open>index\<close>: the first one) of every encoded name that starts with
  the feature's name.
\<close>

fun encoded_groups :: "schema \<Rightarrow> string list \<Rightarrow> nat list list \<Rightarrow> error + nat list list" where
  "encoded_groups s [] cols = Inr cols"
| "encoded_groups s (col_parent # rest) cols =
     (case encoded_feature_names s of None \<Rightarrow> Inl AttributeError
      | Some names \<Rightarrow>
        (case map_err (list_index names) (filter (\<lambda>col. startswith col col_parent) names) of
           Inl e \<Rightarrow> Inl e
         | Inr temp \<Rightarrow> encoded_groups s rest (cols @ [temp])))"

definition get_encoded_categorical_feature_indexes :: "schema \<Rightarrow> error + nat list list" where
  "get_encoded_categorical_feature_indexes s = encoded_groups s (categorical_feature_names s) []"

text \<open>
  \<^verbatim>\<open>get_data_params\<close>, lines 96 to 107. It assigns the two caches, so it returns the
  schema too. Once \<^verbatim>\<open>get_minx_maxx\<close> has returned, nothing raises.
\<close>

definition get_data_params ::
  "schema \<Rightarrow> error + ((rat list list \<times> rat list list \<times> nat list \<times> nat list list) \<times> schema)" where
  "get_data_params s =
     (case get_minx_maxx s True of Inl e \<Rightarrow> Inl e
      | Inr (minx, maxx) \<Rightarrow>
        (let ci = [0..<length (continuous_feature_indexes s)];
             s1 = s\<lparr>encoded_continuous_feature_indexes := Some ci\<rparr>
         in case get_encoded_categorical_feature_indexes s1 of Inl e \<Rightarrow> Inl e
            | Inr gi \<Rightarrow>
              Inr ((minx, maxx, ci, gi), s1\<lparr>encoded_categorical_feature_indexes := Some gi\<rparr>)))"

text \<open>A list comprehension \<^verbatim>\<open>[x for x in xs if c(x)]\<close> whose condition can raise.\<close>

fun filter_err :: "('a \<Rightarrow> error + bool) \<Rightarrow> 'a list \<Rightarrow> error + 'a list" where
  "filter_err c [] = Inr []"
| "filter_err c (x # xs) =
     (case c x of Inl e \<Rightarrow> Inl e
      | Inr b \<Rightarrow>
        (case filter_err c xs of Inl e \<Rightarrow> Inl e
         | Inr ys \<Rightarrow> Inr (if b then x # ys else ys)))"

text \<open>
  \<^verbatim>\<open>get_indexes_of_features_to_vary\<close>, lines 117 to 122. The condition of line 122 reads
  the name \<^verbatim>\<open>feature_list\<close>, which is bound nowhere (the parameter is
  \<^verbatim>\<open>features_to_vary\<close>): reading it raises \<^verbatim>\<open>NameError\<close>. The test against a tuple of
  prefixes is written out for the value the name would have.
\<close>

definition feature_list :: "error + pyobj" where
  "feature_list = Inl NameError"

fun startswith_tuple :: "string \<Rightarrow> pyobj \<Rightarrow> error + bool" where
  "startswith_tuple col (PyList ps) =
     (if list_all is_string ps then Inr (list_ex (\<lambda>p. startswith col (str_of p)) ps)
      else Inl TypeError)"
| "startswith_tuple col v = Inl TypeError"

definition get_indexes_of_features_to_vary :: "schema \<Rightarrow> pyobj \<Rightarrow> error + nat list" where
  "get_indexes_of_features_to_vary s features_to_vary =
     (if eq_str features_to_vary ''all''
      then (case encoded_feature_names s of None \<Rightarrow> Inl AttributeError
            | Some names \<Rightarrow> Inr [0..<length names])
      else (case encoded_feature_names s of None \<Rightarrow> Inl AttributeError
            | Some names \<Rightarrow>
              (case filter_err
                      (\<lambda>(colidx, col).
                         case feature_list of Inl e \<Rightarrow> Inl e
                         | Inr fl \<Rightarrow> startswith_tuple col fl)
                      (enumerate 0 names) of
                 Inl e \<Rightarrow> Inl e
               | Inr ps \<Rightarrow> Inr (map fst ps))))"

section \<open>Decimal precisions\<close>

text \<open>\<^verbatim>\<open>xs[i] = v\<close> on a list.\<close>

definition list_setitem :: "'a list \<Rightarrow> nat \<Rightarrow> 'a \<Rightarrow> error + 'a list" where
  "list_setitem xs i v = (if i < length xs then Inr (xs[i := v]) else Inl IndexError)"

text \<open>
  \<^verbatim>\<open>get_decimal_precisions\<close>, lines 133 to 140. \<open>ix\<close> counts the continuous features:
  it is the position of \<open>feature_name\<close> in \<open>continuous_feature_names\<close>.
\<close>

fun precisions_loop :: "pyobj \<Rightarrow> (nat \<times> string) list \<Rightarrow> pyobj list \<Rightarrow> error + pyobj list" where
  "precisions_loop tp [] precisions = Inr precisions"
| "precisions_loop tp ((ix, feature_name) # rest) precisions =
     (case getitem_str tp feature_name of Inl e \<Rightarrow> Inl e
      | Inr type_prec \<Rightarrow>
        if eq_str type_prec ''int''
        then (case list_setitem precisions ix (PyInt 0) of Inl e \<Rightarrow> Inl e
              | Inr precisions' \<Rightarrow> precisions_loop tp rest precisions')
        else (case getitem_str tp feature_name of Inl e \<Rightarrow> Inl e
              | Inr tpf \<Rightarrow>
                (case getitem tpf 1 of Inl e \<Rightarrow> Inl e
                 | Inr p \<Rightarrow>
                   (case list_setitem precisions ix p of Inl e \<Rightarrow> Inl e
                    | Inr precisions' \<Rightarrow> precisions_loop tp rest precisions'))))"

definition get_decimal_precisions :: "schema \<Rightarrow> error + pyobj list" where
  "get_decimal_precisions s =
     precisions_loop (type_and_precision s)
       (enumerate 0 (continuous_feature_names s))
       (replicate (length (feature_names s)) (PyInt 0))"

section \<open>Decoding\<close>

text \<open>\<^verbatim>\<open>sub in c\<close> on strings, and \<^verbatim>\<open>c.replace(x, "")\<close>.\<close>

fun contains :: "string \<Rightarrow> string \<Rightarrow> bool" where
  "contains [] sub = (sub = [])"
| "contains (a # cs) sub = (startswith (a # cs) sub \<or> contains cs sub)"

function replace_empty :: "string \<Rightarrow> string \<Rightarrow> string" where
  "replace_empty x [] = []"
| "replace_empty x (a # cs) =
     (if x \<noteq> [] \<and> startswith (a # cs) x then replace_empty x (drop (length x) (a # cs))
      else a # replace_empty x cs)"
  by pat_completeness auto
termination
  by (relation "measure (\<lambda>(x, c). length c)") (auto simp: neq_Nil_conv)

text \<open>
  \<^verbatim>\<open>np.argmax\<close> of a row of \<^verbatim>\<open>data[cols].values\<close>. The selected columns give a numeric
  array when all of them are numeric, and an array of Python objects when one of them
  holds strings. On a numeric row the result is the first position of the greatest
  cell, and the first \<^verbatim>\<open>nan\<close> when there is one. On a row of objects numpy compares with
  Python's comparison: a row of strings gives the first position of the greatest string, and
  a row that holds a string and a number raises \<^verbatim>\<open>TypeError\<close>. An empty row raises
  \<^verbatim>\<open>ValueError\<close>.
\<close>

fun fnum_gt :: "fnum \<Rightarrow> fnum \<Rightarrow> bool" where
  "fnum_gt (Fin a) (Fin b) = (b < a)"
| "fnum_gt PosInf (Fin b) = True"
| "fnum_gt PosInf NegInf = True"
| "fnum_gt (Fin a) NegInf = True"
| "fnum_gt x y = False"

fun argmax_num :: "fnum list \<Rightarrow> nat \<Rightarrow> nat \<Rightarrow> fnum \<Rightarrow> nat" where
  "argmax_num [] i best bv = best"
| "argmax_num (x # xs) i best bv =
     (if bv = NaN then best
      else if x = NaN \<or> fnum_gt x bv then argmax_num xs (Suc i) i x
      else argmax_num xs (Suc i) best bv)"

fun argmax_str :: "string list \<Rightarrow> nat \<Rightarrow> nat \<Rightarrow> string \<Rightarrow> nat" where
  "argmax_str [] i best bv = best"
| "argmax_str (x # xs) i best bv =
     (if bv < x then argmax_str xs (Suc i) i x else argmax_str xs (Suc i) best bv)"

fun is_str_cell :: "cell \<Rightarrow> bool" where
  "is_str_cell (CStr t) = True"
| "is_str_cell c = False"

fun as_float :: "cell \<Rightarrow> fnum" where
  "as_float (CInt v) = Fin (of_int v)"
| "as_float (CFloat f) = f"
| "as_float (CStr t) = NaN"

fun as_string :: "cell \<Rightarrow> string" where
  "as_string (CStr t) = t"
| "as_string c = []"

definition argmax :: "cell list \<Rightarrow> error + nat" where
  "argmax row =
     (case row of
        [] \<Rightarrow> Inl ValueError
      | x # xs \<Rightarrow>
          if list_all (\<lambda>c. \<not> is_str_cell c) row
          then Inr (argmax_num (map as_float xs) 1 0 (as_float x))
          else if list_all is_str_cell row
          then Inr (argmax_str (map as_string xs) 1 0 (as_string x))
          else Inl TypeError)"

text \<open>\<^verbatim>\<open>out.drop(cols, axis=1, inplace=True)\<close>: every name has to be a column.\<close>

definition frame_drop :: "frame \<Rightarrow> string list \<Rightarrow> error + frame" where
  "frame_drop fr cols =
     (if list_all (\<lambda>c. c \<in> set (map fst fr)) cols
      then Inr (filter (\<lambda>(name, col). name \<notin> set cols) fr)
      else Inl KeyError)"

text \<open>
  \<^verbatim>\<open>from_dummies\<close>, lines 124 to 131, with \<^verbatim>\<open>prefix_sep='_'\<close>. \<^verbatim>\<open>data[cols].values\<close> is the
  list of rows of the selected columns; with no selected column \<^verbatim>\<open>np.argmax\<close> raises
  \<^verbatim>\<open>ValueError\<close>. The new column holds, for every row, the label of the position picked.
\<close>

fun from_dummies_loop :: "frame \<Rightarrow> string list \<Rightarrow> frame \<Rightarrow> error + frame" where
  "from_dummies_loop data [] out = Inr out"
| "from_dummies_loop data (l # rest) out =
     (let cols = filter (\<lambda>c. contains c (l @ ''_'')) (map fst data);
          labs = map (replace_empty (l @ ''_'')) cols
      in case map_err (frame_getitem data) cols of Inl e \<Rightarrow> Inl e
         | Inr columns \<Rightarrow>
           (case (if cols = [] then Inl ValueError
                  else map_err argmax (transpose (map cells columns))) of
              Inl e \<Rightarrow> Inl e
            | Inr picks \<Rightarrow>
              (case frame_drop (frame_setitem out l (Strings (map (\<lambda>i. labs ! i) picks))) cols of
                 Inl e \<Rightarrow> Inl e
               | Inr out' \<Rightarrow> from_dummies_loop data rest out')))"

definition from_dummies :: "schema \<Rightarrow> frame \<Rightarrow> error + frame" where
  "from_dummies s data = from_dummies_loop data (categorical_feature_names s) data"

text \<open>
  The argument of \<^verbatim>\<open>get_decoded_data\<close>: a two-dimensional array, given by its number of
  columns and its rows, or a frame. An array has one dtype; every row has as many entries
  as the array has columns. \<^verbatim>\<open>pd.DataFrame(data, index, columns)\<close> gives every column the
  dtype of the array, and raises \<^verbatim>\<open>ValueError\<close> when the array has not one column per name.
\<close>

datatype matrix =
    IntMatrix "int list list"
  | FloatMatrix "fnum list list"
  | StrMatrix "string list list"

datatype table = NdArray nat matrix | DataFrame frame

fun matrix_column :: "matrix \<Rightarrow> nat \<Rightarrow> column" where
  "matrix_column (IntMatrix rows) j = Int64 (map (\<lambda>row. row ! j) rows)"
| "matrix_column (FloatMatrix rows) j = Float64 (map (\<lambda>row. row ! j) rows)"
| "matrix_column (StrMatrix rows) j = Strings (map (\<lambda>row. row ! j) rows)"

definition make_frame :: "nat \<Rightarrow> matrix \<Rightarrow> string list \<Rightarrow> error + frame" where
  "make_frame ncols rows names =
     (if ncols = length names
      then Inr (map (\<lambda>(j, name). (name, matrix_column rows j)) (enumerate 0 names))
      else Inl ValueError)"

text \<open>
  \<^verbatim>\<open>get_decoded_data\<close>, lines 142 to 147. For an array the arguments of line 146 are
  evaluated first, \<^verbatim>\<open>self.encoded_feature_names\<close> among them.
\<close>

definition get_decoded_data :: "schema \<Rightarrow> table \<Rightarrow> error + frame" where
  "get_decoded_data s data =
     (case data of
        NdArray ncols rows \<Rightarrow>
          (case encoded_feature_names s of None \<Rightarrow> Inl AttributeError
           | Some names \<Rightarrow>
             (case make_frame ncols rows names of Inl e \<Rightarrow> Inl e
              | Inr fr \<Rightarrow> from_dummies s fr))
      | DataFrame fr \<Rightarrow> from_dummies s fr)"

section \<open>Notions used in the statements\<close>

text \<open>
  A feature is declared continuous when the first element of its declared value is an
  integer. The declared levels of a categorical feature are the strings of its declared
  value (the characters of a string, the keys of a dictionary).
\<close>

definition declared_continuous :: "(string \<times> pyobj) list \<Rightarrow> string \<Rightarrow> bool" where
  "declared_continuous features_dict k =
     (case map_of features_dict k of
        None \<Rightarrow> False
      | Some v \<Rightarrow> (case getitem v 0 of Inl e \<Rightarrow> False | Inr first \<Rightarrow> is_int first))"

fun declared_levels :: "pyobj \<Rightarrow> string list" where
  "declared_levels (PyList xs) = map str_of xs"
| "declared_levels (PyStr t) = map (\<lambda>c. [c]) t"
| "declared_levels (PyNpStr t) = map (\<lambda>c. [c]) t"
| "declared_levels (PyDict d) = map fst d"
| "declared_levels (PyOrderedDict d) = map fst d"
| "declared_levels v = []"

definition levels :: "(string \<times> pyobj) list \<Rightarrow> string \<Rightarrow> string list" where
  "levels d c = (case map_of d c of None \<Rightarrow> [] | Some lv \<Rightarrow> declared_levels lv)"





text \<open>
  The value of a finite numeric cell. A value is subtracted exactly when it is a finite
  float, or an \<^verbatim>\<open>int64\<close> whose difference with \<open>m\<close> is within \<^verbatim>\<open>int64\<close>, so that the
  subtraction of line 67 does not wrap around. It is scaled exactly when it is a finite
  float, or an \<^verbatim>\<open>int64\<close> whose product with \<open>w\<close>, and that product plus \<open>m\<close>, are within
  \<^verbatim>\<open>int64\<close>, so that line 76 does not wrap around.
\<close>

definition in_int64 :: "rat \<Rightarrow> bool" where
  "in_int64 q = (- (2 ^ 63) \<le> q \<and> q < 2 ^ 63)"

fun cell_value :: "cell \<Rightarrow> rat" where
  "cell_value (CInt v) = of_int v"
| "cell_value (CFloat (Fin a)) = a"
| "cell_value c = 0"

fun subtracted_exactly :: "rat \<Rightarrow> cell \<Rightarrow> bool" where
  "subtracted_exactly m (CInt v) = in_int64 (of_int v - m)"
| "subtracted_exactly m (CFloat (Fin a)) = True"
| "subtracted_exactly m c = False"

fun scaled_exactly :: "rat \<Rightarrow> rat \<Rightarrow> cell \<Rightarrow> bool" where
  "scaled_exactly w m (CInt v) = (in_int64 (of_int v * w) \<and> in_int64 (of_int v * w + m))"
| "scaled_exactly w m (CFloat (Fin a)) = True"
| "scaled_exactly w m c = False"

text \<open>
  The precision a type entry declares: 0 for \<^verbatim>\<open>'int'\<close>, the second element of any other
  entry, as \<^verbatim>\<open>('float', 2)\<close> declares 2.
\<close>

definition declared_precision :: "pyobj \<Rightarrow> string \<Rightarrow> error + pyobj" where
  "declared_precision tp f =
     (case getitem_str tp f of Inl e \<Rightarrow> Inl e
      | Inr type_prec \<Rightarrow> if eq_str type_prec ''int'' then Inr (PyInt 0) else getitem type_prec 1)"

section \<open>Example schemas\<close>

text \<open>
  The specification's example: a continuous \<open>age\<close> in \<open>[18, 65]\<close> and a categorical
  \<open>color\<close> with the levels red, green, blue.
\<close>

definition age_color_params :: "(string \<times> pyobj) list" where
  "age_color_params =
     [(''features'', PyDict [(''age'', PyList [PyInt 18, PyInt 65]),
                             (''color'', PyList [PyStr ''red'', PyStr ''green'', PyStr ''blue''])]),
      (''outcome_name'', PyStr ''income'')]"

definition age_color_schema :: schema where
  "age_color_schema =
     \<lparr>outcome_name = ''income'',
      type_and_precision = PyDict [(''age'', PyStr ''int'')],
      mad = PyList [PyFloat 1, PyFloat 1],
      continuous_feature_names = [''age''],
      permitted_range = [(''age'', PyList [PyInt 18, PyInt 65])],
      categorical_feature_names = [''color''],
      categorical_levels = [(''color'', PyList [PyStr ''red'', PyStr ''green'', PyStr ''blue''])],
      feature_names = [''age'', ''color''],
      continuous_feature_indexes = [0], categorical_feature_indexes = [1],
      encoded_feature_names = Some [''age'', ''color_blue'', ''color_green'', ''color_red''],
      encoded_continuous_feature_indexes = None,
      encoded_categorical_feature_indexes = None\<rparr>"

text \<open>A schema with one continuous feature and no categorical one.\<close>

definition age_params :: "(string \<times> pyobj) list" where
  "age_params =
     [(''features'', PyDict [(''age'', PyList [PyInt 18, PyInt 65])]),
      (''outcome_name'', PyStr ''income'')]"

definition age_schema :: schema where
  "age_schema =
     \<lparr>outcome_name = ''income'',
      type_and_precision = PyDict [(''age'', PyStr ''int'')],
      mad = PyList [PyFloat 1],
      continuous_feature_names = [''age''],
      permitted_range = [(''age'', PyList [PyInt 18, PyInt 65])],
      categorical_feature_names = [], categorical_levels = [],
      feature_names = [''age''],
      continuous_feature_indexes = [0], categorical_feature_indexes = [],
      encoded_feature_names = None,
      encoded_continuous_feature_indexes = None,
      encoded_categorical_feature_indexes = None\<rparr>"

text \<open>Two continuous features, and a type given for the first one only.\<close>

definition age_hours_params :: "(string \<times> pyobj) list" where
  "age_hours_params =
     [(''features'', PyDict [(''age'', PyList [PyInt 18, PyInt 65]),
                             (''hours'', PyList [PyInt 0, PyInt 80])]),
      (''outcome_name'', PyStr ''income''),
      (''type_and_precision'', PyDict [(''age'', PyStr ''int'')])]"

definition age_hours_schema :: schema where
  "age_hours_schema =
     \<lparr>outcome_name = ''income'',
      type_and_precision = PyDict [(''age'', PyStr ''int'')],
      mad = PyList [PyFloat 1, PyFloat 1],
      continuous_feature_names = [''age'', ''hours''],
      permitted_range = [(''age'', PyList [PyInt 18, PyInt 65]),
                         (''hours'', PyList [PyInt 0, PyInt 80])],
      categorical_feature_names = [], categorical_levels = [],
      feature_names = [''age'', ''hours''],
      continuous_feature_indexes = [0, 1], categorical_feature_indexes = [],
      encoded_feature_names = None,
      encoded_continuous_feature_indexes = None,
      encoded_categorical_feature_indexes = None\<rparr>"

text \<open>A categorical feature declared before a continuous one of type \<^verbatim>\<open>['float', 2]\<close>.\<close>

definition color_age_params :: "(string \<times> pyobj) list" where
  "color_age_params =
     [(''features'', PyDict [(''color'', PyList [PyStr ''red'', PyStr ''blue'']),
                             (''age'', PyList [PyInt 18, PyInt 65])]),
      (''outcome_name'', PyStr ''income''),
      (''type_and_precision'', PyDict [(''age'', PyList [PyStr ''float'', PyInt 2])])]"

definition color_age_schema :: schema where
  "color_age_schema =
     \<lparr>outcome_name = ''income'',
      type_and_precision = PyDict [(''age'', PyList [PyStr ''float'', PyInt 2])],
      mad = PyList [PyFloat 1, PyFloat 1],
      continuous_feature_names = [''age''],
      permitted_range = [(''age'', PyList [PyInt 18, PyInt 65])],
      categorical_feature_names = [''color''],
      categorical_levels = [(''color'', PyList [PyStr ''red'', PyStr ''blue''])],
      feature_names = [''color'', ''age''],
      continuous_feature_indexes = [1], categorical_feature_indexes = [0],
      encoded_feature_names = Some [''age'', ''color_blue'', ''color_red''],
      encoded_continuous_feature_indexes = None,
      encoded_categorical_feature_indexes = None\<rparr>"

text \<open>A continuous feature whose name starts with the name of a categorical one.\<close>

definition color_depth_params :: "(string \<times> pyobj) list" where
  "color_depth_params =
     [(''features'', PyDict [(''color_depth'', PyList [PyInt 0, PyInt 255]),
                             (''color'', PyList [PyStr ''red'', PyStr ''blue''])]),
      (''outcome_name'', PyStr ''income'')]"

definition color_depth_schema :: schema where
  "color_depth_schema =
     \<lparr>outcome_name = ''income'',
      type_and_precision = PyDict [(''color_depth'', PyStr ''int'')],
      mad = PyList [PyFloat 1, PyFloat 1],
      continuous_feature_names = [''color_depth''],
      permitted_range = [(''color_depth'', PyList [PyInt 0, PyInt 255])],
      categorical_feature_names = [''color''],
      categorical_levels = [(''color'', PyList [PyStr ''red'', PyStr ''blue''])],
      feature_names = [''color_depth'', ''color''],
      continuous_feature_indexes = [0], categorical_feature_indexes = [1],
      encoded_feature_names = Some [''color_depth'', ''color_blue'', ''color_red''],
      encoded_continuous_feature_indexes = None,
      encoded_categorical_feature_indexes = None\<rparr>"





text \<open>The features given as an \<^verbatim>\<open>OrderedDict\<close>, and the outcome name as a \<^verbatim>\<open>numpy.str_\<close>.\<close>

definition ordered_params :: "(string \<times> pyobj) list" where
  "ordered_params =
     [(''features'', PyOrderedDict [(''age'', PyList [PyInt 18, PyInt 65])]),
      (''outcome_name'', PyStr ''income'')]"

definition np_str_params :: "(string \<times> pyobj) list" where
  "np_str_params =
     [(''features'', PyDict [(''age'', PyList [PyInt 18, PyInt 65])]),
      (''outcome_name'', PyNpStr ''income'')]"

section \<open>Evaluating the constructor\<close>

lemmas constructor_defs =
  PrivateData_def build_schema_def dict_getitem_def empty_schema_def assign_indexes_def
  assign_encoded_feature_names_def assign_default_types_def dict_setitem_def
  type_and_precision_argument_def mad_argument_def

lemma age_color_constructed: "PrivateData age_color_params = Inr age_color_schema"
  by (simp add: age_color_params_def age_color_schema_def constructor_defs)

lemma age_constructed: "PrivateData age_params = Inr age_schema"
  by (simp add: age_params_def age_schema_def constructor_defs)

lemma age_hours_constructed: "PrivateData age_hours_params = Inr age_hours_schema"
  by (simp add: age_hours_params_def age_hours_schema_def constructor_defs)

lemma color_age_constructed: "PrivateData color_age_params = Inr color_age_schema"
  by (simp add: color_age_params_def color_age_schema_def constructor_defs)

lemma color_depth_constructed: "PrivateData color_depth_params = Inr color_depth_schema"
  by (simp add: color_depth_params_def color_depth_schema_def constructor_defs)


section \<open>Properties of the constructor\<close>

subsection \<open>The classification loop\<close>

lemma classify_names:
  "classify fd ks s = Inr s' \<Longrightarrow>
     continuous_feature_names s' = continuous_feature_names s @ filter (declared_continuous fd) ks \<and>
     categorical_feature_names s' =
       categorical_feature_names s @ filter (\<lambda>k. \<not> declared_continuous fd k) ks"
proof (induction ks arbitrary: s)
  case Nil
  then show ?case by simp
next
  case (Cons k ks)
  then show ?case
    by (auto simp: dict_getitem_def declared_continuous_def split: option.splits sum.splits if_splits)
qed

lemma classify_frame:
  "classify fd ks s = Inr s' \<Longrightarrow>
     outcome_name s' = outcome_name s \<and> type_and_precision s' = type_and_precision s \<and>
     mad s' = mad s \<and> feature_names s' = feature_names s \<and>
     encoded_feature_names s' = encoded_feature_names s"
proof (induction ks arbitrary: s)
  case Nil
  then show ?case by simp
next
  case (Cons k ks)
  then show ?case
    by (auto simp: dict_getitem_def split: option.splits sum.splits if_splits)
qed

lemma classify_levels:
  "classify fd ks s = Inr s' \<Longrightarrow>
     map_of (categorical_levels s') c =
       (if c \<in> set ks \<and> \<not> declared_continuous fd c then map_of fd c
        else map_of (categorical_levels s) c)"
proof (induction ks arbitrary: s)
  case Nil
  then show ?case by simp
next
  case (Cons k ks)
  then show ?case
    by (auto simp: dict_getitem_def dict_setitem_def declared_continuous_def update_conv'
             split: option.splits sum.splits if_splits)
qed

lemma classify_range:
  "classify fd ks s = Inr s' \<Longrightarrow>
     map_of (permitted_range s') c =
       (if c \<in> set ks \<and> declared_continuous fd c then map_of fd c
        else map_of (permitted_range s) c)"
proof (induction ks arbitrary: s)
  case Nil
  then show ?case by simp
next
  case (Cons k ks)
  then show ?case
    by (auto simp: dict_getitem_def dict_setitem_def declared_continuous_def update_conv'
             split: option.splits sum.splits if_splits)
qed

lemma getitem_no_ValueError: "getitem v i \<noteq> Inl ValueError"
  by (cases v) auto

lemma classify_no_ValueError: "classify fd ks s \<noteq> Inl ValueError"
proof (induction ks arbitrary: s)
  case Nil
  then show ?case by simp
next
  case (Cons k ks)
  show ?case using Cons getitem_no_ValueError
    by (auto simp: dict_getitem_def split: option.splits sum.splits if_splits)
qed

subsection \<open>The index lists\<close>

lemma list_index_mem:
  "x \<in> set ys \<Longrightarrow> \<exists>i. list_index ys x = Inr i \<and> i < length ys \<and> ys ! i = x"
  by (induction ys) auto

lemma map_err_list_index:
  "set xs \<subseteq> set ys \<Longrightarrow> \<exists>is. map_err (list_index ys) xs = Inr is \<and> length is = length xs"
proof (induction xs)
  case Nil
  then show ?case by simp
next
  case (Cons x xs)
  then obtain i where "list_index ys x = Inr i" using list_index_mem[of x ys] by auto
  with Cons show ?case by auto
qed

lemma assign_indexes_ok:
  "\<exists>ci gi. assign_indexes keys s =
     Inr (s\<lparr>continuous_feature_indexes := ci, categorical_feature_indexes := gi\<rparr>) \<and>
     length ci = length (filter (\<lambda>name. name \<in> set keys) (continuous_feature_names s))"
proof -
  obtain ci where ci: "map_err (list_index keys)
      (filter (\<lambda>name. name \<in> set keys) (continuous_feature_names s)) = Inr ci"
    and lci: "length ci = length (filter (\<lambda>name. name \<in> set keys) (continuous_feature_names s))"
    using map_err_list_index[of "filter (\<lambda>name. name \<in> set keys) (continuous_feature_names s)" keys]
    by auto
  obtain gi where gi: "map_err (list_index keys)
      (filter (\<lambda>name. name \<in> set keys) (categorical_feature_names s)) = Inr gi"
    using map_err_list_index[of "filter (\<lambda>name. name \<in> set keys) (categorical_feature_names s)" keys]
    by auto
  show ?thesis using ci gi lci by (auto simp add: assign_indexes_def)
qed

subsection \<open>The encoded names\<close>

lemma append_levels_result:
  "append_levels f cats enc = Inr enc' \<Longrightarrow>
     list_all is_string cats \<and> enc' = enc @ map (\<lambda>c. f @ ''_'' @ str_of c) cats"
proof (induction cats arbitrary: enc)
  case Nil
  then show ?case by simp
next
  case (Cons c cats)
  from Cons.prems have c: "is_string c"
    by (cases c) auto
  with Cons.prems have "append_levels f cats (enc @ [f @ ''_'' @ str_of c]) = Inr enc'"
    by (cases c) auto
  from Cons.IH[OF this] c show ?case by simp
qed

lemma append_levels_no_ValueError: "append_levels f cats enc \<noteq> Inl ValueError"
proof (induction cats arbitrary: enc)
  case Nil
  then show ?case by simp
next
  case (Cons c cats)
  then show ?case by (cases c) (auto split: sum.splits)
qed

lemma insort_singleton:
  "insort [c] (map (\<lambda>c. [c]) ys) = map (\<lambda>c. [c]) (insort c (ys::string))"
  by (induction ys) (auto simp: list_le_def list_less_def)

lemma sort_singletons: "sort (map (\<lambda>c. [c]) t) = map (\<lambda>c. [c]) (sort (t::string))"
  by (induction t) (simp_all add: sort_key_simps insort_singleton)

lemma py_sorted_strings:
  assumes "py_sorted lv = Inr cats" and "list_all is_string cats"
  shows "map str_of cats = sort (declared_levels lv)"
proof (cases lv)
  case (PyList xs)
  show ?thesis
  proof (cases "list_all is_string xs")
    case True
    with assms PyList show ?thesis by (auto simp: comp_def)
  next
    case False
    have "set (sort_key num_of xs) = set xs" by simp
    then have "list_all is_string (sort_key num_of xs) = list_all is_string xs"
      unfolding list_all_iff by simp
    with False assms PyList show ?thesis by (auto split: if_splits)
  qed
next
  case (PyStr t)
  with assms show ?thesis by (auto simp: comp_def sort_singletons)
next
  case (PyNpStr t)
  with assms show ?thesis by (auto simp: comp_def sort_singletons)
next
  case (PyDict d)
  with assms show ?thesis by (auto simp: comp_def)
next
  case (PyOrderedDict d)
  with assms show ?thesis by (auto simp: comp_def)
qed (use assms in auto)

lemma py_sorted_no_ValueError: "py_sorted lv \<noteq> Inl ValueError"
  by (cases lv) auto

lemma encode_categorical_no_ValueError: "encode_categorical lvs cs enc \<noteq> Inl ValueError"
proof (induction cs arbitrary: enc)
  case Nil
  then show ?case by simp
next
  case (Cons c cs)
  then show ?case
    using py_sorted_no_ValueError append_levels_no_ValueError
    by (auto simp: dict_getitem_def split: option.splits sum.splits)
qed

lemma encode_categorical_result:
  "encode_categorical lvs cs enc = Inr enc' \<Longrightarrow>
     enc' = enc @ concat (map (\<lambda>c. map (\<lambda>l. c @ ''_'' @ l) (sort (levels lvs c))) cs)"
proof (induction cs arbitrary: enc)
  case Nil
  then show ?case by simp
next
  case (Cons c cs)
  from Cons.prems obtain lv cats enc1 where
    lv: "map_of lvs c = Some lv" and so: "py_sorted lv = Inr cats" and
    ap: "append_levels c cats enc = Inr enc1" and
    rest: "encode_categorical lvs cs enc1 = Inr enc'"
    by (auto simp: dict_getitem_def split: option.splits sum.splits)
  from append_levels_result[OF ap] have
    str: "list_all is_string cats" and
    enc1: "enc1 = enc @ map (\<lambda>x. c @ ''_'' @ str_of x) cats" by auto
  from py_sorted_strings[OF so str] have "map str_of cats = sort (levels lvs c)"
    by (simp add: levels_def lv)
  then have "map (\<lambda>x. c @ ''_'' @ str_of x) cats = map (\<lambda>l. c @ ''_'' @ l) (sort (levels lvs c))"
    by (metis (no_types, lifting) map_map comp_apply map_eq_conv)
  with Cons.IH[OF rest] enc1 show ?case by simp
qed

subsection \<open>The default types\<close>

lemma py_len_no_ValueError: "py_len v \<noteq> Inl ValueError"
  by (cases v) auto

lemma fill_int_no_ValueError: "fill_int fs tp \<noteq> Inl ValueError"
proof (induction fs arbitrary: tp)
  case Nil
  then show ?case by simp
next
  case (Cons f fs)
  then show ?case by (cases tp) auto
qed

lemma fill_int_dict:
  "\<exists>d'. fill_int fs (PyDict d) = Inr (PyDict d') \<and>
        (\<forall>f. map_of d' f = (if f \<in> set fs then Some (PyStr ''int'') else map_of d f))"
proof (induction fs arbitrary: d)
  case Nil
  then show ?case by simp
next
  case (Cons g fs)
  obtain d' where d': "fill_int fs (PyDict (dict_setitem d g (PyStr ''int''))) = Inr (PyDict d')"
    and m: "\<forall>f. map_of d' f = (if f \<in> set fs then Some (PyStr ''int'')
                                 else map_of (dict_setitem d g (PyStr ''int'')) f)"
    using Cons.IH[of "dict_setitem d g (PyStr ''int'')"] by blast
  from m have "\<forall>f. map_of d' f = (if f \<in> set (g # fs) then Some (PyStr ''int'') else map_of d f)"
    by (auto simp: dict_setitem_def update_conv')
  with d' show ?case by simp
qed

subsection \<open>The constructed schema\<close>

lemma build_schema_no_ValueError: "build_schema fd oc tp md \<noteq> Inl ValueError"
proof
  assume a: "build_schema fd oc tp md = Inl ValueError"
  show False
  proof (cases "classify fd (map fst fd) (empty_schema oc tp md)")
    case (Inl e)
    with a classify_no_ValueError[of fd "map fst fd" "empty_schema oc tp md"] show False
      by (simp add: build_schema_def)
  next
    case (Inr s1)
    obtain ci gi where ai: "assign_indexes (map fst fd) (s1\<lparr>feature_names := map fst fd\<rparr>) =
        Inr (s1\<lparr>feature_names := map fst fd, continuous_feature_indexes := ci,
                categorical_feature_indexes := gi\<rparr>)"
      using assign_indexes_ok[of "map fst fd" "s1\<lparr>feature_names := map fst fd\<rparr>"] by auto
    from a Inr ai show False
      using encode_categorical_no_ValueError py_len_no_ValueError fill_int_no_ValueError
      by (auto simp: build_schema_def assign_encoded_feature_names_def assign_default_types_def
               split: sum.splits if_splits)
  qed
qed

lemma build_schema_steps:
  assumes "build_schema fd oc tp md = Inr s"
  obtains s1 s3 where
    "classify fd (map fst fd) (empty_schema oc tp md) = Inr s1"
    "continuous_feature_names s3 = continuous_feature_names s1"
    "categorical_feature_names s3 = categorical_feature_names s1"
    "permitted_range s3 = permitted_range s1"
    "type_and_precision s3 = tp"
    "feature_names s3 = map fst fd"
    "length (continuous_feature_indexes s3) = length (continuous_feature_names s1)"
    "encoded_feature_names s3 =
       (if categorical_feature_names s1 = [] then None
        else (case encode_categorical (categorical_levels s1) (categorical_feature_names s1)
                     (continuous_feature_names s1) of
                Inl e \<Rightarrow> None | Inr enc \<Rightarrow> Some enc))"
    "categorical_feature_names s1 \<noteq> [] \<Longrightarrow>
       \<exists>enc. encode_categorical (categorical_levels s1) (categorical_feature_names s1)
                (continuous_feature_names s1) = Inr enc"
    "assign_default_types s3 = Inr s"
proof -
  from assms obtain s1 where c: "classify fd (map fst fd) (empty_schema oc tp md) = Inr s1"
    by (auto simp: build_schema_def split: sum.splits)
  have sub: "filter (\<lambda>name. name \<in> set (map fst fd)) (continuous_feature_names s1)
             = continuous_feature_names s1"
    using classify_names[OF c] by (auto simp: empty_schema_def intro: filter_cong)
  obtain ci gi where ai: "assign_indexes (map fst fd) (s1\<lparr>feature_names := map fst fd\<rparr>) =
      Inr (s1\<lparr>feature_names := map fst fd, continuous_feature_indexes := ci,
              categorical_feature_indexes := gi\<rparr>)"
    and lci: "length ci = length (continuous_feature_names s1)"
    using assign_indexes_ok[of "map fst fd" "s1\<lparr>feature_names := map fst fd\<rparr>"] sub by auto
  define s2 where "s2 = s1\<lparr>feature_names := map fst fd, continuous_feature_indexes := ci,
                           categorical_feature_indexes := gi\<rparr>"
  from assms c ai obtain s3 where e: "assign_encoded_feature_names s2 = Inr s3"
    and d: "assign_default_types s3 = Inr s"
    by (auto simp: build_schema_def s2_def split: sum.splits)
  have tp1: "type_and_precision s1 = tp" and en1: "encoded_feature_names s1 = None"
    using classify_frame[OF c] by (simp_all add: empty_schema_def)
  show thesis
  proof (rule that[OF c _ _ _ _ _ _ _ _ d])
    show "continuous_feature_names s3 = continuous_feature_names s1"
      using e by (auto simp: assign_encoded_feature_names_def s2_def split: sum.splits if_splits)
    show "categorical_feature_names s3 = categorical_feature_names s1"
      using e by (auto simp: assign_encoded_feature_names_def s2_def split: sum.splits if_splits)
    show "permitted_range s3 = permitted_range s1"
      using e by (auto simp: assign_encoded_feature_names_def s2_def split: sum.splits if_splits)
    show "type_and_precision s3 = tp"
      using e tp1 by (auto simp: assign_encoded_feature_names_def s2_def split: sum.splits if_splits)
    show "feature_names s3 = map fst fd"
      using e by (auto simp: assign_encoded_feature_names_def s2_def split: sum.splits if_splits)
    show "length (continuous_feature_indexes s3) = length (continuous_feature_names s1)"
      using e lci by (auto simp: assign_encoded_feature_names_def s2_def split: sum.splits if_splits)
    show "encoded_feature_names s3 =
       (if categorical_feature_names s1 = [] then None
        else (case encode_categorical (categorical_levels s1) (categorical_feature_names s1)
                     (continuous_feature_names s1) of
                Inl e \<Rightarrow> None | Inr enc \<Rightarrow> Some enc))"
      using e en1 by (auto simp: assign_encoded_feature_names_def s2_def split: sum.splits if_splits)
    show "\<exists>enc. encode_categorical (categorical_levels s1) (categorical_feature_names s1)
                (continuous_feature_names s1) = Inr enc" if "categorical_feature_names s1 \<noteq> []"
      using e that by (auto simp: assign_encoded_feature_names_def s2_def split: sum.splits if_splits)
  qed
qed

lemma assign_default_types_frame:
  assumes "assign_default_types s3 = Inr s"
  shows "continuous_feature_names s = continuous_feature_names s3"
    and "categorical_feature_names s = categorical_feature_names s3"
    and "feature_names s = feature_names s3"
    and "encoded_feature_names s = encoded_feature_names s3"
    and "permitted_range s = permitted_range s3"
    and "continuous_feature_indexes s = continuous_feature_indexes s3"
  using assms by (auto simp: assign_default_types_def split: sum.splits if_splits)

lemma build_schema_layout:
  assumes "build_schema fd oc tp md = Inr s"
  shows "continuous_feature_names s = filter (declared_continuous fd) (map fst fd)"
    and "categorical_feature_names s = filter (\<lambda>k. \<not> declared_continuous fd k) (map fst fd)"
    and "feature_names s = map fst fd"
    and "length (continuous_feature_indexes s) = length (continuous_feature_names s)"
    and "categorical_feature_names s \<noteq> [] \<Longrightarrow> encoded_feature_names s =
           Some (continuous_feature_names s @
                 concat (map (\<lambda>c. map (\<lambda>l. c @ ''_'' @ l) (sort (levels fd c)))
                           (categorical_feature_names s)))"
    and "categorical_feature_names s = [] \<Longrightarrow> encoded_feature_names s = None"
proof -
  from assms obtain s1 s3 where
    c: "classify fd (map fst fd) (empty_schema oc tp md) = Inr s1" and
    e1: "continuous_feature_names s3 = continuous_feature_names s1"
        "categorical_feature_names s3 = categorical_feature_names s1"
        "permitted_range s3 = permitted_range s1"
        "type_and_precision s3 = tp"
        "feature_names s3 = map fst fd"
        "length (continuous_feature_indexes s3) = length (continuous_feature_names s1)" and
    en: "encoded_feature_names s3 =
       (if categorical_feature_names s1 = [] then None
        else (case encode_categorical (categorical_levels s1) (categorical_feature_names s1)
                     (continuous_feature_names s1) of
                Inl e \<Rightarrow> None | Inr enc \<Rightarrow> Some enc))" and
    ex: "categorical_feature_names s1 \<noteq> [] \<Longrightarrow>
       \<exists>enc. encode_categorical (categorical_levels s1) (categorical_feature_names s1)
                (continuous_feature_names s1) = Inr enc" and
    d: "assign_default_types s3 = Inr s"
    by (rule build_schema_steps) blast
  note d1 = assign_default_types_frame[OF d]
  have n1: "continuous_feature_names s1 = filter (declared_continuous fd) (map fst fd)"
    and n2: "categorical_feature_names s1 = filter (\<lambda>k. \<not> declared_continuous fd k) (map fst fd)"
    using classify_names[OF c] by (simp_all add: empty_schema_def)
  have lv: "map_of (categorical_levels s1) k = map_of fd k"
    if "k \<in> set (categorical_feature_names s1)" for k
    using classify_levels[OF c, of k] that n2 by (auto simp: empty_schema_def)
  show "continuous_feature_names s = filter (declared_continuous fd) (map fst fd)"
    using d1 e1 n1 by simp
  show "categorical_feature_names s = filter (\<lambda>k. \<not> declared_continuous fd k) (map fst fd)"
    using d1 e1 n2 by simp
  show "feature_names s = map fst fd" using d1 e1 by simp
  show "length (continuous_feature_indexes s) = length (continuous_feature_names s)"
    using d1 e1 by simp
  show "encoded_feature_names s = None" if "categorical_feature_names s = []"
    using that d1 e1 en by simp
  show "encoded_feature_names s =
           Some (continuous_feature_names s @
                 concat (map (\<lambda>c. map (\<lambda>l. c @ ''_'' @ l) (sort (levels fd c)))
                           (categorical_feature_names s)))"
    if ne: "categorical_feature_names s \<noteq> []"
  proof -
    from ne d1 e1 have ne1: "categorical_feature_names s1 \<noteq> []" by simp
    from ex[OF ne1] obtain enc where enc: "encode_categorical (categorical_levels s1)
        (categorical_feature_names s1) (continuous_feature_names s1) = Inr enc" by blast
    with en ne1 have s3: "encoded_feature_names s3 = Some enc" by simp
    have m: "map (\<lambda>c. map (\<lambda>l. c @ ''_'' @ l) (sort (levels (categorical_levels s1) c)))
                 (categorical_feature_names s1)
           = map (\<lambda>c. map (\<lambda>l. c @ ''_'' @ l) (sort (levels fd c))) (categorical_feature_names s1)"
      by (rule map_cong) (simp_all add: levels_def lv)
    have "enc = continuous_feature_names s1 @
        concat (map (\<lambda>c. map (\<lambda>l. c @ ''_'' @ l) (sort (levels (categorical_levels s1) c)))
                  (categorical_feature_names s1))"
      using encode_categorical_result[OF enc] .
    then have "enc = continuous_feature_names s1 @
        concat (map (\<lambda>c. map (\<lambda>l. c @ ''_'' @ l) (sort (levels fd c))) (categorical_feature_names s1))"
      by (simp only: m)
    with s3 d1 e1 show ?thesis by simp
  qed
qed

lemma build_schema_types:
  assumes "build_schema fd oc tp md = Inr s"
  shows "tp = PyDict [] \<Longrightarrow> f \<in> set (continuous_feature_names s) \<Longrightarrow>
           getitem_str (type_and_precision s) f = Inr (PyStr ''int'')"
    and "py_len tp \<noteq> Inr 0 \<Longrightarrow> type_and_precision s = tp"
proof -
  from assms obtain s1 s3 where
    c: "classify fd (map fst fd) (empty_schema oc tp md) = Inr s1" and
    e1: "continuous_feature_names s3 = continuous_feature_names s1"
        "categorical_feature_names s3 = categorical_feature_names s1"
        "permitted_range s3 = permitted_range s1"
        "type_and_precision s3 = tp"
        "feature_names s3 = map fst fd"
        "length (continuous_feature_indexes s3) = length (continuous_feature_names s1)" and
    en: "encoded_feature_names s3 =
       (if categorical_feature_names s1 = [] then None
        else (case encode_categorical (categorical_levels s1) (categorical_feature_names s1)
                     (continuous_feature_names s1) of
                Inl e \<Rightarrow> None | Inr enc \<Rightarrow> Some enc))" and
    ex: "categorical_feature_names s1 \<noteq> [] \<Longrightarrow>
       \<exists>enc. encode_categorical (categorical_levels s1) (categorical_feature_names s1)
                (continuous_feature_names s1) = Inr enc" and
    d: "assign_default_types s3 = Inr s"
    by (rule build_schema_steps) blast
  note d1 = assign_default_types_frame[OF d]
  show "type_and_precision s = tp" if "py_len tp \<noteq> Inr 0"
    using d e1 that by (auto simp: assign_default_types_def split: sum.splits if_splits)
  show "getitem_str (type_and_precision s) f = Inr (PyStr ''int'')"
    if t: "tp = PyDict []" and f: "f \<in> set (continuous_feature_names s)"
  proof -
    obtain d' where fi: "fill_int (continuous_feature_names s3) (PyDict []) = Inr (PyDict d')"
      and m: "\<forall>g. map_of d' g = (if g \<in> set (continuous_feature_names s3)
                                   then Some (PyStr ''int'') else map_of [] g)"
      using fill_int_dict[of "continuous_feature_names s3" "[]"] by blast
    from d e1 t fi have "type_and_precision s = PyDict d'"
      by (auto simp: assign_default_types_def split: sum.splits if_splits)
    with m f d1 show ?thesis by (simp add: dict_getitem_def)
  qed
qed

lemma PrivateData_build:
  assumes "PrivateData params = Inr s" and "map_of params ''features'' = Some (PyDict fd)"
  obtains oc where "build_schema fd oc (type_and_precision_argument params)
                      (mad_argument params (length fd)) = Inr s"
  using assms
  by (auto simp: PrivateData_def dict_getitem_def split: option.splits pyobj.splits)

lemma PrivateData_features:
  assumes "PrivateData params = Inr s"
  obtains fd where "map_of params ''features'' = Some (PyDict fd)"
  using assms
  by (auto simp: PrivateData_def dict_getitem_def split: option.splits pyobj.splits)

text \<open>The permitted range of a continuous feature starts with an \<^verbatim>\<open>int\<close>: \<open>min_value\<close> is one.\<close>

lemma constructed_range_starts_with_int:
  assumes "PrivateData params = Inr s" and "f \<in> set (continuous_feature_names s)"
  shows "\<exists>r i. map_of (permitted_range s) f = Some r \<and> getitem r 0 = Inr (PyInt i)"
proof -
  from PrivateData_features[OF assms(1)] obtain fd where
    fd: "map_of params ''features'' = Some (PyDict fd)" .
  from PrivateData_build[OF assms(1) fd] obtain oc where
    b: "build_schema fd oc (type_and_precision_argument params)
          (mad_argument params (length fd)) = Inr s" .
  from b obtain s1 s3 where
    c: "classify fd (map fst fd) (empty_schema oc (type_and_precision_argument params)
          (mad_argument params (length fd))) = Inr s1" and
    e1: "continuous_feature_names s3 = continuous_feature_names s1"
        "categorical_feature_names s3 = categorical_feature_names s1"
        "permitted_range s3 = permitted_range s1"
        "type_and_precision s3 = type_and_precision_argument params"
        "feature_names s3 = map fst fd"
        "length (continuous_feature_indexes s3) = length (continuous_feature_names s1)" and
    en: "encoded_feature_names s3 =
       (if categorical_feature_names s1 = [] then None
        else (case encode_categorical (categorical_levels s1) (categorical_feature_names s1)
                     (continuous_feature_names s1) of
                Inl e \<Rightarrow> None | Inr enc \<Rightarrow> Some enc))" and
    ex: "categorical_feature_names s1 \<noteq> [] \<Longrightarrow>
       \<exists>enc. encode_categorical (categorical_levels s1) (categorical_feature_names s1)
                (continuous_feature_names s1) = Inr enc" and
    d: "assign_default_types s3 = Inr s"
    by (rule build_schema_steps) blast
  note d1 = assign_default_types_frame[OF d]
  from assms(2) d1(1) e1(1) classify_names[OF c]
  have f: "f \<in> set (map fst fd)" "declared_continuous fd f"
    by (auto simp: empty_schema_def)
  from classify_range[OF c, of f] f d1(5) e1(3)
  have "map_of (permitted_range s) f = map_of fd f" by simp
  with f(2) show ?thesis
    by (cases "map_of fd f")
       (auto simp: declared_continuous_def split: sum.splits elim: is_int.elims)
qed

section \<open>Claims about the constructor\<close>

text \<open>
  Claim C1, as amended. For every schema constructed from a feature mapping that declares
  at least one categorical feature, \<open>continuous_feature_names\<close> and
  \<open>categorical_feature_names\<close> list the continuous and the categorical features in
  declaration order, and \<open>encoded_feature_names\<close> lists all continuous feature names
  first, then for each categorical feature in declaration order its levels sorted
  lexicographically, each appended as \<^verbatim>\<open><feature>_<level>\<close>; its length is the number of
  continuous features plus the sum of the numbers of levels of the categorical features.
\<close>

theorem encoded_feature_names_layout:
  assumes "PrivateData params = Inr s"
    and "map_of params ''features'' = Some (PyDict features_dict)"
    and "categorical_feature_names s \<noteq> []"
  shows "continuous_feature_names s =
           filter (declared_continuous features_dict) (map fst features_dict) \<and>
         categorical_feature_names s =
           filter (\<lambda>k. \<not> declared_continuous features_dict k) (map fst features_dict) \<and>
         encoded_feature_names s =
           Some (continuous_feature_names s @
                 concat (map (\<lambda>c. map (\<lambda>l. c @ ''_'' @ l) (sort (levels features_dict c)))
                           (categorical_feature_names s))) \<and>
         map_option length (encoded_feature_names s) =
           Some (length (continuous_feature_names s) +
                 sum_list (map (\<lambda>c. length (levels features_dict c))
                             (categorical_feature_names s)))"
proof -
  from PrivateData_build[OF assms(1,2)] obtain oc where
    b: "build_schema features_dict oc (type_and_precision_argument params)
          (mad_argument params (length features_dict)) = Inr s" .
  note l = build_schema_layout[OF b]
  have len: "length (concat (map (\<lambda>c. map (\<lambda>l. c @ ''_'' @ l) (sort (levels features_dict c))) cs))
      = sum_list (map (\<lambda>c. length (levels features_dict c)) cs)" for cs
    by (induction cs) simp_all
  from l(1) l(2) l(5)[OF assms(3)] len show ?thesis by simp
qed

text \<open>
  The hypotheses hold at the specification's example, where the encoded names are
  \<open>age\<close>, \<open>color_blue\<close>, \<open>color_green\<close>, \<open>color_red\<close>.
\<close>

theorem encoded_feature_names_layout_witness:
  "PrivateData age_color_params = Inr age_color_schema \<and>
   categorical_feature_names age_color_schema = [''color''] \<and>
   encoded_feature_names age_color_schema =
     Some [''age'', ''color_blue'', ''color_green'', ''color_red''] \<and>
   map_option length (encoded_feature_names age_color_schema) = Some (1 + 3)"
proof -
  have f: "map_of age_color_params ''features'' =
      Some (PyDict [(''age'', PyList [PyInt 18, PyInt 65]),
                    (''color'', PyList [PyStr ''red'', PyStr ''green'', PyStr ''blue''])])"
    by (simp add: age_color_params_def)
  have n: "categorical_feature_names age_color_schema \<noteq> []"
    by (simp add: age_color_schema_def)
  from encoded_feature_names_layout[OF age_color_constructed f n] age_color_constructed
  show ?thesis
    by (simp add: age_color_schema_def levels_def)
qed

text \<open>
  The claim as it was stated, for every constructed schema, fails on a schema without a
  categorical feature: line 50 guards the assignment, and the attribute is never assigned.
\<close>

theorem continuous_only_schema_has_no_encoded_names:
  "PrivateData age_params = Inr age_schema \<and>
   continuous_feature_names age_schema = [''age''] \<and>
   categorical_feature_names age_schema = [] \<and>
   encoded_feature_names age_schema = None"
  using age_constructed by (simp add: age_schema_def)

text \<open>
  Claim C8, as amended. After construction, \<open>type_and_precision\<close> maps every continuous
  feature to \<^verbatim>\<open>'int'\<close> when the optional argument is absent or an empty dictionary; an
  argument of non-zero length is kept as it was given (line 57 fills the defaults only
  when the length is zero).
\<close>

theorem default_types_when_argument_empty:
  assumes "PrivateData params = Inr s"
  shows "(type_and_precision_argument params = PyDict [] \<longrightarrow>
            list_all (\<lambda>f. getitem_str (type_and_precision s) f = Inr (PyStr ''int''))
              (continuous_feature_names s)) \<and>
         (py_len (type_and_precision_argument params) \<noteq> Inr 0 \<longrightarrow>
            type_and_precision s = type_and_precision_argument params)"
proof -
  from PrivateData_features[OF assms] obtain fd where
    f: "map_of params ''features'' = Some (PyDict fd)" .
  from PrivateData_build[OF assms f] obtain oc where
    b: "build_schema fd oc (type_and_precision_argument params)
          (mad_argument params (length fd)) = Inr s" .
  from build_schema_types[OF b] show ?thesis
    by (auto simp: list_all_iff)
qed

text \<open>Both cases at the examples: no argument, and an argument for one of two features.\<close>

theorem default_types_when_argument_empty_witness:
  "PrivateData age_color_params = Inr age_color_schema \<and>
   type_and_precision_argument age_color_params = PyDict [] \<and>
   getitem_str (type_and_precision age_color_schema) ''age'' = Inr (PyStr ''int'') \<and>
   PrivateData age_hours_params = Inr age_hours_schema \<and>
   py_len (type_and_precision_argument age_hours_params) = Inr 1 \<and>
   type_and_precision age_hours_schema = PyDict [(''age'', PyStr ''int'')]"
proof -
  have e: "type_and_precision_argument age_color_params = PyDict []"
    by (simp add: type_and_precision_argument_def age_color_params_def)
  have n: "py_len (type_and_precision_argument age_hours_params) = Inr 1"
    by (simp add: type_and_precision_argument_def age_hours_params_def)
  have a: "type_and_precision_argument age_hours_params = PyDict [(''age'', PyStr ''int'')]"
    by (simp add: type_and_precision_argument_def age_hours_params_def)
  from default_types_when_argument_empty[OF age_color_constructed] e
  have 1: "getitem_str (type_and_precision age_color_schema) ''age'' = Inr (PyStr ''int'')"
    by (simp add: age_color_schema_def)
  from default_types_when_argument_empty[OF age_hours_constructed] n a
  have 2: "type_and_precision age_hours_schema = PyDict [(''age'', PyStr ''int'')]"
    by simp
  from 1 2 e n age_color_constructed age_hours_constructed show ?thesis by simp
qed

text \<open>
  The claim as it was stated fails for a non-empty map that covers only some of the
  continuous features: \<open>hours\<close> gets no entry, and reading it raises \<^verbatim>\<open>KeyError\<close>.
\<close>

theorem partial_type_map_gets_no_default:
  "PrivateData age_hours_params = Inr age_hours_schema \<and>
   continuous_feature_names age_hours_schema = [''age'', ''hours''] \<and>
   getitem_str (type_and_precision age_hours_schema) ''age'' = Inr (PyStr ''int'') \<and>
   getitem_str (type_and_precision age_hours_schema) ''hours'' = Inl KeyError"
  using age_hours_constructed by (simp add: age_hours_schema_def dict_getitem_def)

text \<open>
  Claim C9, as amended. When \<^verbatim>\<open>params\<close> holds the two entries, construction fails with
  \<^verbatim>\<open>ValueError\<close> (the specification's ConfigurationError), and so constructs no schema,
  exactly when the type of the features argument is not \<^verbatim>\<open>dict\<close> itself or the type of
  the outcome name is not \<^verbatim>\<open>str\<close> itself: lines 19 and 22 test \<^verbatim>\<open>type(x) is dict\<close> and
  \<^verbatim>\<open>type(x) is str\<close>. For a \<^verbatim>\<open>dict\<close> and a \<^verbatim>\<open>str\<close> the two checks pass, and no later step
  of the constructor raises \<^verbatim>\<open>ValueError\<close>.
\<close>

theorem constructor_ValueError_iff:
  assumes "map_of params ''features'' = Some fo" and "map_of params ''outcome_name'' = Some oo"
  shows "(PrivateData params = Inl ValueError) = (\<not> is_dict fo \<or> \<not> is_str oo)"
proof (cases fo)
  case (PyDict fd)
  show ?thesis
  proof (cases oo)
    case (PyStr oc)
    with PyDict assms build_schema_no_ValueError show ?thesis
      by (simp add: PrivateData_def dict_getitem_def)
  qed (use PyDict assms in \<open>simp_all add: PrivateData_def dict_getitem_def\<close>)
qed (use assms in \<open>simp_all add: PrivateData_def dict_getitem_def\<close>)

text \<open>A list of features, an integer outcome name, and the example that passes.\<close>

theorem constructor_ValueError_iff_witness:
  "PrivateData [(''features'', PyList [PyStr ''age'']), (''outcome_name'', PyStr ''income'')]
     = Inl ValueError \<and>
   PrivateData [(''features'', PyDict [(''age'', PyList [PyInt 18, PyInt 65])]),
                (''outcome_name'', PyInt 3)] = Inl ValueError \<and>
   PrivateData age_color_params \<noteq> Inl ValueError"
proof -
  have a: "PrivateData [(''features'', PyList [PyStr ''age'']), (''outcome_name'', PyStr ''income'')]
     = Inl ValueError"
    using constructor_ValueError_iff[of
        "[(''features'', PyList [PyStr ''age'']), (''outcome_name'', PyStr ''income'')]"
        "PyList [PyStr ''age'']" "PyStr ''income''"]
    by simp
  have b: "PrivateData [(''features'', PyDict [(''age'', PyList [PyInt 18, PyInt 65])]),
                (''outcome_name'', PyInt 3)] = Inl ValueError"
    using constructor_ValueError_iff[of
        "[(''features'', PyDict [(''age'', PyList [PyInt 18, PyInt 65])]), (''outcome_name'', PyInt 3)]"
        "PyDict [(''age'', PyList [PyInt 18, PyInt 65])]" "PyInt 3"]
    by simp
  have c: "PrivateData age_color_params \<noteq> Inl ValueError"
    using constructor_ValueError_iff[of age_color_params
        "PyDict [(''age'', PyList [PyInt 18, PyInt 65]),
                 (''color'', PyList [PyStr ''red'', PyStr ''green'', PyStr ''blue''])]"
        "PyStr ''income''"]
    by (simp add: age_color_params_def)
  from a b c show ?thesis by simp
qed

text \<open>
  The claim as written fails on a mapping that is not a \<^verbatim>\<open>dict\<close> and on a string that is
  not a \<^verbatim>\<open>str\<close>: features given as an \<^verbatim>\<open>OrderedDict\<close>, and an outcome name given as a
  \<^verbatim>\<open>numpy.str_\<close>, are both refused with \<^verbatim>\<open>ValueError\<close>.
\<close>

theorem mapping_and_string_of_another_type_are_refused:
  "map_of ordered_params ''features'' =
     Some (PyOrderedDict [(''age'', PyList [PyInt 18, PyInt 65])]) \<and>
   is_mapping (PyOrderedDict [(''age'', PyList [PyInt 18, PyInt 65])]) \<and>
   map_of ordered_params ''outcome_name'' = Some (PyStr ''income'') \<and>
   is_string (PyStr ''income'') \<and>
   PrivateData ordered_params = Inl ValueError \<and>
   map_of np_str_params ''features'' = Some (PyDict [(''age'', PyList [PyInt 18, PyInt 65])]) \<and>
   is_mapping (PyDict [(''age'', PyList [PyInt 18, PyInt 65])]) \<and>
   map_of np_str_params ''outcome_name'' = Some (PyNpStr ''income'') \<and>
   is_string (PyNpStr ''income'') \<and>
   PrivateData np_str_params = Inl ValueError"
  by (simp add: ordered_params_def np_str_params_def PrivateData_def dict_getitem_def)

section \<open>Properties of the two transforms\<close>

subsection \<open>The loop over the continuous features\<close>







subsection \<open>Arithmetic of a column\<close>







lemma scaled_exactly_float:
  "scaled_exactly w m (CFloat f) \<Longrightarrow> f = Fin (cell_value (CFloat f))"
  by (cases f) auto





text \<open>
  A value of an \<^verbatim>\<open>int64\<close> column that lies in the permitted range is subtracted exactly
  when the range is narrower than \<open>2^63\<close>.
\<close>

lemma within_range_subtracted_exactly:
  assumes "mn \<le> of_int v" and "of_int v \<le> mx" and "mx - mn < 2 ^ 63"
  shows "subtracted_exactly mn (CInt v)"
  using assms by (simp add: in_int64_def)

subsection \<open>A copy, then the loop\<close>







subsection \<open>One transform after the other\<close>



subsection \<open>The examples\<close>







section \<open>Claims about the two transforms\<close>







section \<open>Claims about the encoded space\<close>

lemma PrivateData_layout:
  assumes "PrivateData params = Inr s" and "map_of params ''features'' = Some (PyDict fd)"
  shows "continuous_feature_names s = filter (declared_continuous fd) (map fst fd)"
    and "categorical_feature_names s = filter (\<lambda>k. \<not> declared_continuous fd k) (map fst fd)"
    and "feature_names s = map fst fd"
    and "categorical_feature_names s = [] \<Longrightarrow> encoded_feature_names s = None"
proof -
  from PrivateData_build[OF assms] obtain oc where
    b: "build_schema fd oc (type_and_precision_argument params)
          (mad_argument params (length fd)) = Inr s" .
  note l = build_schema_layout[OF b]
  show "continuous_feature_names s = filter (declared_continuous fd) (map fst fd)" by (rule l(1))
  show "categorical_feature_names s = filter (\<lambda>k. \<not> declared_continuous fd k) (map fst fd)"
    by (rule l(2))
  show "feature_names s = map fst fd" by (rule l(3))
  show "categorical_feature_names s = [] \<Longrightarrow> encoded_feature_names s = None" by (rule l(6))
qed

text \<open>
  With encoded feature names, \<^verbatim>\<open>get_minx_maxx\<close> returns the unit bounds for
  \<^verbatim>\<open>normalized=True\<close> and raises \<^verbatim>\<open>NameError\<close> otherwise, and \<^verbatim>\<open>get_data_params\<close> returns
  the positions \<open>0..|continuous| - 1\<close> and one group per categorical feature.
\<close>

lemma get_minx_maxx_normalized:
  "encoded_feature_names s = Some names \<Longrightarrow>
     get_minx_maxx s True = Inr ([replicate (length names) 0], [replicate (length names) 1])"
  by (simp add: get_minx_maxx_def)

lemma get_minx_maxx_not_normalized:
  "encoded_feature_names s = Some names \<Longrightarrow> get_minx_maxx s False = Inl NameError"
  by (simp add: get_minx_maxx_def)

lemma encoded_groups_total:
  "encoded_feature_names s = Some names \<Longrightarrow>
     \<exists>gi. encoded_groups s cs cols = Inr gi \<and> length gi = length cols + length cs"
proof (induction cs arbitrary: cols)
  case Nil
  then show ?case by simp
next
  case (Cons c cs)
  obtain temp where t: "map_err (list_index names) (filter (\<lambda>col. startswith col c) names) = Inr temp"
    using map_err_list_index[of "filter (\<lambda>col. startswith col c) names" names] by auto
  from Cons.IH[OF Cons.prems, of "cols @ [temp]"] t Cons.prems show ?case by auto
qed

lemma get_data_params_continuous:
  assumes "encoded_feature_names s = Some names"
  shows "\<exists>gi s'. get_data_params s =
           Inr (([replicate (length names) 0], [replicate (length names) 1],
                 [0..<length (continuous_feature_indexes s)], gi), s') \<and>
           length gi = length (categorical_feature_names s)"
proof -
  define s1 where "s1 = s\<lparr>encoded_continuous_feature_indexes :=
                            Some [0..<length (continuous_feature_indexes s)]\<rparr>"
  have e: "encoded_feature_names s1 = Some names" using assms by (simp add: s1_def)
  from encoded_groups_total[OF e, of "categorical_feature_names s1" "[]"] obtain gi where
    "encoded_groups s1 (categorical_feature_names s1) [] = Inr gi"
    "length gi = length (categorical_feature_names s1)" by auto
  then show ?thesis using assms
    by (simp add: get_data_params_def get_minx_maxx_def
          get_encoded_categorical_feature_indexes_def s1_def Let_def)
qed

text \<open>
  Claim C10. For every schema constructed from a feature mapping that declares continuous
  features only, the constructor leaves \<open>encoded_feature_names\<close> unassigned, and every
  operation that reads it raises \<^verbatim>\<open>AttributeError\<close>: \<^verbatim>\<open>get_minx_maxx\<close> for either value of
  \<open>normalized\<close>, \<^verbatim>\<open>get_data_params\<close>, \<^verbatim>\<open>get_indexes_of_features_to_vary\<close> for every
  argument, and \<^verbatim>\<open>get_decoded_data\<close> on an array.
\<close>

theorem reads_of_encoded_feature_names_fail:
  assumes "PrivateData params = Inr s"
    and "map_of params ''features'' = Some (PyDict features_dict)"
    and "list_all (declared_continuous features_dict) (map fst features_dict)"
  shows "categorical_feature_names s = [] \<and> encoded_feature_names s = None \<and>
         get_minx_maxx s normalized = Inl AttributeError \<and>
         get_data_params s = Inl AttributeError \<and>
         get_indexes_of_features_to_vary s features_to_vary = Inl AttributeError \<and>
         get_decoded_data s (NdArray ncols rows) = Inl AttributeError"
proof -
  note l = PrivateData_layout[OF assms(1,2)]
  have c: "categorical_feature_names s = []"
    using l(2) assms(3) by (simp add: list_all_iff)
  from l(4)[OF c] have e: "encoded_feature_names s = None" .
  from c e show ?thesis
    by (simp add: get_minx_maxx_def get_data_params_def get_indexes_of_features_to_vary_def
          get_decoded_data_def)
qed

text \<open>The schema with the single feature \<open>age\<close>.\<close>

theorem reads_of_encoded_feature_names_fail_witness:
  "PrivateData age_params = Inr age_schema \<and>
   encoded_feature_names age_schema = None \<and>
   get_minx_maxx age_schema True = Inl AttributeError \<and>
   get_minx_maxx age_schema False = Inl AttributeError \<and>
   get_data_params age_schema = Inl AttributeError \<and>
   get_indexes_of_features_to_vary age_schema (PyStr ''all'') = Inl AttributeError \<and>
   get_indexes_of_features_to_vary age_schema (PyList [PyStr ''age'']) = Inl AttributeError \<and>
   get_decoded_data age_schema (NdArray 1 (FloatMatrix [[Fin 0.5]])) = Inl AttributeError"
proof -
  have f: "map_of age_params ''features'' = Some (PyDict [(''age'', PyList [PyInt 18, PyInt 65])])"
    by (simp add: age_params_def)
  have a: "list_all (declared_continuous [(''age'', PyList [PyInt 18, PyInt 65])])
             (map fst [(''age'', PyList [PyInt 18, PyInt 65])])"
    by (simp add: declared_continuous_def)
  note t = reads_of_encoded_feature_names_fail[OF age_constructed f a]
  from t[of True "PyStr ''all''" 1 "FloatMatrix [[Fin 0.5]]"]
    t[of False "PyList [PyStr ''age'']" 1 "FloatMatrix [[Fin 0.5]]"]
    age_constructed
  show ?thesis by simp
qed

text \<open>
  Claim C4, as amended. \<^verbatim>\<open>get_indexes_of_features_to_vary\<close> returns
  \<open>range(0, |encoded_feature_names|)\<close> when it is called with the sentinel \<^verbatim>\<open>"all"\<close> on a
  schema that has encoded feature names; and for no argument does it raise \<^verbatim>\<open>ValueError\<close>
  (the specification's ConfigurationError): the method has no check of the given names
  against the declared features. What it returns for a list of names is left open.
\<close>

theorem indexes_of_all_features:
  "(encoded_feature_names s = Some names \<longrightarrow>
      get_indexes_of_features_to_vary s (PyStr ''all'') = Inr [0..<length names]) \<and>
   get_indexes_of_features_to_vary s features_to_vary \<noteq> Inl ValueError"
proof -
  have "filter_err (\<lambda>(colidx, col). case feature_list of Inl e \<Rightarrow> Inl e
                                    | Inr fl \<Rightarrow> startswith_tuple col fl) ps \<noteq> Inl ValueError"
    for ps :: "(nat \<times> string) list"
    by (cases ps) (auto simp: feature_list_def)
  then show ?thesis
    by (auto simp: get_indexes_of_features_to_vary_def eq_str_def split: option.splits sum.splits)
qed

text \<open>The example schema has four encoded names.\<close>

theorem indexes_of_all_features_witness:
  "encoded_feature_names age_color_schema =
     Some [''age'', ''color_blue'', ''color_green'', ''color_red''] \<and>
   get_indexes_of_features_to_vary age_color_schema (PyStr ''all'') = Inr [0, 1, 2, 3] \<and>
   get_indexes_of_features_to_vary age_color_schema (PyList [PyStr ''height'']) \<noteq> Inl ValueError"
proof -
  have e: "encoded_feature_names age_color_schema =
     Some [''age'', ''color_blue'', ''color_green'', ''color_red'']"
    by (simp add: age_color_schema_def)
  have u: "[0..<4] = [0, 1, 2, 3::nat]" by (simp add: upt_rec)
  from indexes_of_all_features[of age_color_schema
      "[''age'', ''color_blue'', ''color_green'', ''color_red'']" "PyList [PyStr ''height'']"] e u
  show ?thesis by simp
qed

text \<open>
  The claim as it was stated fails for a list of names: the unrecognized name \<open>height\<close>
  does not raise ConfigurationError, and the declared name \<open>age\<close> does not return the
  position 0. Line 122 reads the unbound name \<^verbatim>\<open>feature_list\<close>, so both calls raise
  \<^verbatim>\<open>NameError\<close>.
\<close>

theorem indexes_of_named_features_raise_NameError:
  "get_indexes_of_features_to_vary age_color_schema (PyList [PyStr ''age'']) = Inl NameError \<and>
   get_indexes_of_features_to_vary age_color_schema (PyList [PyStr ''height'']) = Inl NameError"
  by (simp add: get_indexes_of_features_to_vary_def age_color_schema_def feature_list_def eq_str_def)

text \<open>
  Claim C5. For \<^verbatim>\<open>normalized=True\<close> the method returns the all-0 and the all-1 vector of
  the length of \<open>encoded_feature_names\<close>, as claimed. For \<^verbatim>\<open>normalized=False\<close> the claim
  asks for the permitted ranges at the continuous positions; lines 87 and 88 read the
  unbound names \<^verbatim>\<open>feature_name\<close> and \<^verbatim>\<open>idx\<close>, and the call raises \<^verbatim>\<open>NameError\<close>. The code
  at the example schema, where the claim asks for \<open>([18, 0, 0, 0], [65, 1, 1, 1])\<close>:
\<close>

theorem get_minx_maxx_not_normalized_raises:
  "get_minx_maxx age_color_schema True = Inr ([[0, 0, 0, 0]], [[1, 1, 1, 1]]) \<and>
   get_minx_maxx age_color_schema False = Inl NameError"
  by (simp add: get_minx_maxx_def age_color_schema_def numeral_eq_Suc)

text \<open>
  Claim C6. The claim asks that the group of a categorical feature hold the positions of
  that feature's own one-hot columns and no other column. Line 113 selects every encoded
  name that starts with the feature's name, without the separator: with a continuous
  feature \<open>color_depth\<close> and a categorical feature \<open>color\<close>, the group of \<open>color\<close> holds
  position 0, the column of \<open>color_depth\<close>, where the claim asks for \<open>[1, 2]\<close>. The
  continuous positions are \<open>[0]\<close>, as claimed.
\<close>

theorem group_of_color_holds_color_depth:
  "encoded_feature_names color_depth_schema = Some [''color_depth'', ''color_blue'', ''color_red''] \<and>
   map_sum id fst (get_data_params color_depth_schema) =
     Inr ([[0, 0, 0]], [[1, 1, 1]], [0], [[0, 1, 2]])"
  by (simp add: get_data_params_def get_minx_maxx_def color_depth_schema_def
        get_encoded_categorical_feature_indexes_def startswith_def numeral_eq_Suc Let_def)

section \<open>Claims about the decimal precisions\<close>

lemma precisions_loop_result:
  assumes "map_err (declared_precision tp) fs = Inr qs" and "k + length fs \<le> length ps"
  shows "precisions_loop tp (enumerate k fs) ps = Inr (take k ps @ qs @ drop (k + length fs) ps)"
  using assms
proof (induction fs arbitrary: k ps qs)
  case Nil
  then show ?case by simp
next
  case (Cons f fs)
  from Cons.prems(1) obtain q qs' where
    q: "declared_precision tp f = Inr q" and
    qs': "map_err (declared_precision tp) fs = Inr qs'" and
    qs: "qs = q # qs'"
    by (auto split: sum.splits)
  from Cons.prems(2) have k: "k < length ps" by simp
  have step: "precisions_loop tp (enumerate k (f # fs)) ps =
                precisions_loop tp (enumerate (Suc k) fs) (ps[k := q])"
    using q k by (auto simp: declared_precision_def list_setitem_def split: sum.splits if_splits)
  have "precisions_loop tp (enumerate (Suc k) fs) (ps[k := q]) =
          Inr (take (Suc k) (ps[k := q]) @ qs' @ drop (Suc k + length fs) (ps[k := q]))"
    using Cons.prems(2) by (intro Cons.IH[OF qs']) simp
  also have "take (Suc k) (ps[k := q]) = take k ps @ [q]"
    using k by (simp add: take_Suc_conv_app_nth)
  also have "drop (Suc k + length fs) (ps[k := q]) = drop (k + length (f # fs)) ps"
    by simp
  finally show ?case using step qs by simp
qed

text \<open>
  Claim C7, as amended. For a constructed schema whose type entries declare a precision
  for every continuous feature, \<^verbatim>\<open>get_decimal_precisions\<close> returns one entry per declared
  feature: the entry at position \<open>i\<close>, for \<open>i\<close> below the number of continuous features,
  is the precision of the \<open>i\<close>-th continuous feature (0 for \<^verbatim>\<open>'int'\<close>, the declared number
  of decimal places for \<^verbatim>\<open>['float', d]\<close>), and every later entry is 0. The position is the
  feature's position among the continuous features, which is its position in the encoded
  space, not its position in \<open>feature_names\<close>.
\<close>

theorem decimal_precisions_by_continuous_position:
  assumes "PrivateData params = Inr s"
    and "map_err (declared_precision (type_and_precision s)) (continuous_feature_names s) = Inr qs"
  shows "get_decimal_precisions s =
           Inr (qs @ replicate (length (feature_names s) - length (continuous_feature_names s))
                       (PyInt 0)) \<and>
         length qs = length (continuous_feature_names s) \<and>
         length (continuous_feature_names s) \<le> length (feature_names s)"
proof -
  from PrivateData_features[OF assms(1)] obtain fd where
    f: "map_of params ''features'' = Some (PyDict fd)" .
  note l = PrivateData_layout[OF assms(1) f]
  have le: "length (continuous_feature_names s) \<le> length (feature_names s)"
    unfolding l(1) l(3) by (metis length_filter_le length_map)
  have lq: "length qs = length fs" if "map_err g fs = Inr qs" for g :: "string \<Rightarrow> error + pyobj" and fs qs
    using that by (induction fs arbitrary: qs) (auto split: sum.splits)
  from precisions_loop_result[OF assms(2), of 0 "replicate (length (feature_names s)) (PyInt 0)"] le
  have "get_decimal_precisions s =
          Inr (qs @ drop (length (continuous_feature_names s))
                      (replicate (length (feature_names s)) (PyInt 0)))"
    by (simp add: get_decimal_precisions_def)
  with le lq[OF assms(2)] show ?thesis by simp
qed

text \<open>A float feature with two decimal places, and the example with the default type.\<close>

theorem decimal_precisions_by_continuous_position_witness:
  "PrivateData color_age_params = Inr color_age_schema \<and>
   map_err (declared_precision (type_and_precision color_age_schema))
     (continuous_feature_names color_age_schema) = Inr [PyInt 2] \<and>
   get_decimal_precisions color_age_schema = Inr [PyInt 2, PyInt 0] \<and>
   PrivateData age_color_params = Inr age_color_schema \<and>
   get_decimal_precisions age_color_schema = Inr [PyInt 0, PyInt 0]"
proof -
  have a: "map_err (declared_precision (type_and_precision color_age_schema))
     (continuous_feature_names color_age_schema) = Inr [PyInt 2]"
    by (simp add: color_age_schema_def declared_precision_def dict_getitem_def eq_str_def)
  have b: "map_err (declared_precision (type_and_precision age_color_schema))
     (continuous_feature_names age_color_schema) = Inr [PyInt 0]"
    by (simp add: age_color_schema_def declared_precision_def dict_getitem_def eq_str_def)
  from decimal_precisions_by_continuous_position[OF color_age_constructed a]
  have 1: "get_decimal_precisions color_age_schema = Inr [PyInt 2, PyInt 0]"
    by (simp add: color_age_schema_def)
  from decimal_precisions_by_continuous_position[OF age_color_constructed b]
  have 2: "get_decimal_precisions age_color_schema = Inr [PyInt 0, PyInt 0]"
    by (simp add: age_color_schema_def)
  from 1 2 a color_age_constructed age_color_constructed show ?thesis by simp
qed

text \<open>
  The claim as it was stated fails when a categorical feature is declared first: the
  precision 2 of \<open>age\<close> stands at position 0, the position of \<open>color\<close> in
  \<open>feature_names\<close>, and position 1, the position of \<open>age\<close>, holds 0.
\<close>

theorem precision_of_age_at_position_of_color:
  "feature_names color_age_schema = [''color'', ''age''] \<and>
   declared_precision (type_and_precision color_age_schema) ''age'' = Inr (PyInt 2) \<and>
   get_decimal_precisions color_age_schema = Inr [PyInt 2, PyInt 0]"
  by (simp add: color_age_schema_def declared_precision_def dict_getitem_def
        get_decimal_precisions_def list_setitem_def eq_str_def)

end
